theory Spec2Isabelle
  imports Main
begin

section \<open>Data model of the control center\<close>

text \<open>
  The source file is the implementation of the class \<^verbatim>\<open>ControlCenter\<close>. The
  header that declares the class is not among the sources (the
  \<^verbatim>\<open>control_center.h\<close> at hand declares an earlier class, with other members
  and enumerations), so the declarations are read off the implementation.
  The enumerations, with the enumerators that the implementation uses:
  \<^verbatim>\<open>instruction::InstructionNumber\<close>, \<^verbatim>\<open>state::ControlState\<close> and the
  regulation modes.
\<close>

datatype InstructionNumber = forward | left | right | stop

datatype ControlState = normal | intersection | stop_line | stopping | blocked

datatype RegulationMode = auto_nominal | auto_critical

text \<open>\<^verbatim>\<open>drive_instruction_t\<close>: the field \<^verbatim>\<open>id\<close> is called \<open>id'\<close> here
  (\<open>id\<close> is the identity function of HOL).\<close>

record drive_instruction_t =
  number :: InstructionNumber
  id' :: string

record control_t =
  angle :: int
  lateral_position :: int
  speed_ref :: int
  regulation_mode :: RegulationMode

text \<open>
  What C++ leaves undefined is a value of the model: \<^verbatim>\<open>front()\<close> of an empty
  \<^verbatim>\<open>std::list\<close>, reading through a past-the-end iterator, an integer
  division by zero and the overflow of a signed addition.
\<close>

datatype fault =
  Front_of_empty_list | Past_the_end_iterator | Division_by_zero | Signed_overflow

text \<open>C++ integer division truncates towards zero; \<open>div\<close> of HOL rounds down.\<close>

definition cpp_div :: "int \<Rightarrow> int \<Rightarrow> int" where
  "cpp_div a b = (if (a < 0) = (b < 0) then \<bar>a\<bar> div \<bar>b\<bar> else - (\<bar>a\<bar> div \<bar>b\<bar>))"

text \<open>
  The addition of two C++ \<^verbatim>\<open>int\<close>s, of 32 bits: the sum when it is a value of
  the type, undefined otherwise.
\<close>

definition INT_MIN :: int where
  "INT_MIN = - 2147483648"

definition INT_MAX :: int where
  "INT_MAX = 2147483647"

definition int_add :: "int \<Rightarrow> int \<Rightarrow> fault + int" where
  "int_add a b =
     (if INT_MIN \<le> a + b \<and> a + b \<le> INT_MAX then Inr (a + b) else Inl Signed_overflow)"

subsection \<open>The distance filter\<close>

text \<open>
  The class \<^verbatim>\<open>DistanceFilter\<close> is used by the implementation and defined
  elsewhere. Its state is the window of samples, oldest first.
\<close>

type_synonym DistanceFilter = "int list"

text \<open>
  Modelled from the spec: the constructor of \<^verbatim>\<open>DistanceFilter\<close>, which is not
  among the sources. The spec (4.1): constructed with a window length \<open>N\<close> and
  an initial value \<open>v0\<close>, the filter keeps the last \<open>N\<close> observations, seeded
  with \<open>N\<close> copies of \<open>v0\<close>.
\<close>

definition DistanceFilter :: "nat \<Rightarrow> int \<Rightarrow> DistanceFilter" where
  "DistanceFilter N v0 = replicate N v0"

text \<open>
  Modelled from the spec: the call operator of \<^verbatim>\<open>DistanceFilter\<close>, which is
  not among the sources. The spec (4.1): each call inserts \<open>x\<close>, evicts the
  oldest sample and returns the integer-truncated arithmetic mean of the
  window. A window of length 0 has no mean: the division by zero is a fault.
\<close>

definition distance_filter :: "DistanceFilter \<Rightarrow> int \<Rightarrow> fault + (int \<times> DistanceFilter)" where
  "distance_filter w x =
     (let w1 = tl (w @ [x])
      in if w1 = [] then Inl Division_by_zero
         else Inr (cpp_div (sum_list w1) (int (length w1)), w1))"

text \<open>Feeding the same value \<open>n\<close> times; the result is the output of the last
  call (\<open>None\<close> when there was no call) and the filter after it.\<close>

fun distance_filter_repeat ::
  "nat \<Rightarrow> DistanceFilter \<Rightarrow> int \<Rightarrow> fault + (int option \<times> DistanceFilter)" where
  "distance_filter_repeat 0 w x = Inr (None, w)"
| "distance_filter_repeat (Suc n) w x =
     (case distance_filter w x of
        Inl e \<Rightarrow> Inl e
      | Inr (y, w1) \<Rightarrow>
          (if n = 0 then Inr (Some y, w1) else distance_filter_repeat n w1 x))"

subsection \<open>The control center\<close>

text \<open>
  The members of \<^verbatim>\<open>ControlCenter\<close>. The stop-line detector is a class of its
  own, not among the sources: its state is the type parameter \<open>'d\<close>. Sensor readings and speeds are C++ \<^verbatim>\<open>int\<close>s, modelled as
  mathematical integers; where the source adds two of them the sum must be
  a 32-bit value (\<open>int_add\<close>). \<^verbatim>\<open>status_code_threshold\<close> is \<^verbatim>\<open>unsigned\<close>; the declaration of
  \<^verbatim>\<open>consecutive_0_status_codes\<close> is in the header, and the counter is a
  natural number, the spec's "running count" (4.4).
\<close>

record 'd ControlCenter =
  obstacle_distance_filter :: DistanceFilter
  stop_distance_filter :: DistanceFilter
  stop_line_detector :: 'd
  status_code_threshold :: nat
  consecutive_0_status_codes :: nat
  state :: ControlState
  stop_reason :: ControlState
  finish_when_stopped :: bool
  drive_instructions :: "drive_instruction_t list"
  road_segments :: "string list"
  finished_id_buffer :: "string list"
  last_angle :: int

text \<open>
  Modelled from the spec: the initial values of the members that the
  constructor's initialiser list does not set, which are default member
  initialisers of the header that is not among the sources. The spec gives
  the initial state \<open>stop_line\<close> (4.4), a count of consecutive zero status
  codes that starts at 0, \<open>finish_when_stopped\<close> not armed and empty queues;
  it says nothing of \<open>stop_reason\<close> and \<open>last_angle\<close>, taken as \<open>stop_line\<close> and
  0. The initialiser list of the source sets the two filters (seeds 100 and
  0), the detector (the constructor of \<^verbatim>\<open>StopLineDetector\<close> is the parameter
  of the same name) and the threshold.
\<close>

definition ControlCenter ::
  "(int \<Rightarrow> int \<Rightarrow> 'd) \<Rightarrow> nat \<Rightarrow> nat \<Rightarrow> int \<Rightarrow> int \<Rightarrow> nat \<Rightarrow> 'd ControlCenter" where
  "ControlCenter StopLineDetector obstacle_distance_filter_len stop_distance_filter_len
       consecutive_param high_count_param threshold =
     \<lparr>obstacle_distance_filter = DistanceFilter obstacle_distance_filter_len 100,
      stop_distance_filter = DistanceFilter stop_distance_filter_len 0,
      stop_line_detector = StopLineDetector consecutive_param high_count_param,
      status_code_threshold = threshold,
      consecutive_0_status_codes = 0,
      state = stop_line,
      stop_reason = stop_line,
      finish_when_stopped = False,
      drive_instructions = [],
      road_segments = [],
      finished_id_buffer = [],
      last_angle = 0\<rparr>"

definition get_state :: "'d ControlCenter \<Rightarrow> ControlState" where
  "get_state cc = state cc"

section \<open>The instruction plan\<close>

definition add_drive_instruction ::
  "'d ControlCenter \<Rightarrow> drive_instruction_t \<Rightarrow> 'd ControlCenter" where
  "add_drive_instruction cc drive_instruction =
     cc\<lparr>drive_instructions := drive_instructions cc @ [drive_instruction]\<rparr>"

text \<open>The overload taking the instruction number and the id.\<close>

definition add_drive_instruction_id ::
  "'d ControlCenter \<Rightarrow> InstructionNumber \<Rightarrow> string \<Rightarrow> 'd ControlCenter" where
  "add_drive_instruction_id cc instruction ident =
     cc\<lparr>drive_instructions :=
          drive_instructions cc @ [\<lparr>number = instruction, id' = ident\<rparr>]\<rparr>"

text \<open>\<^verbatim>\<open>finish_instruction\<close> reads \<^verbatim>\<open>drive_instructions.front()\<close> with no
  check: on an empty plan that is undefined behaviour.\<close>

definition finish_instruction :: "'d ControlCenter \<Rightarrow> fault + 'd ControlCenter" where
  "finish_instruction cc =
     (case drive_instructions cc of
        [] \<Rightarrow> Inl Front_of_empty_list
      | intr # rest \<Rightarrow>
          Inr (cc\<lparr>drive_instructions := rest,
                  road_segments :=
                    (if road_segments cc \<noteq> [] then tl (road_segments cc)
                     else road_segments cc),
                  finished_id_buffer := finished_id_buffer cc @ [id' intr]\<rparr>))"

section \<open>The state machine\<close>

definition set_new_state :: "'d ControlCenter \<Rightarrow> int \<Rightarrow> 'd ControlCenter" where
  "set_new_state cc speed =
     (let instr = (case drive_instructions cc of
                     [] \<Rightarrow> stop
                   | intr # rest \<Rightarrow> number intr);
          (cc1, new_state) =
            (case instr of
               forward \<Rightarrow> (cc, normal)
             | left \<Rightarrow> (cc, intersection)
             | right \<Rightarrow> (cc, intersection)
             | stop \<Rightarrow>
                 (if speed > 0 then (cc\<lparr>stop_reason := stop_line\<rparr>, stopping)
                  else (cc, stop_line)))
      in if new_state \<noteq> state cc1 then cc1\<lparr>state := new_state\<rparr> else cc1)"

text \<open>
  \<^verbatim>\<open>update_state\<close>. The members \<^verbatim>\<open>path_blocked\<close> and
  \<^verbatim>\<open>StopLineDetector::at_line\<close> are defined outside the source file: they are
  parameters, \<open>at_line\<close> returning its answer and the detector's new state.
\<close>

definition update_state ::
  "(int \<Rightarrow> bool) \<Rightarrow> ('d \<Rightarrow> int \<Rightarrow> bool \<times> 'd) \<Rightarrow>
   'd ControlCenter \<Rightarrow> int \<Rightarrow> int \<Rightarrow> int \<Rightarrow> fault + 'd ControlCenter" where
  "update_state path_blocked at_line cc obstacle_distance stop_distance speed =
     (case drive_instructions cc of
        [] \<Rightarrow>
          (if speed > 0 then Inr (cc\<lparr>state := stopping, stop_reason := stop_line\<rparr>)
           else Inr (cc\<lparr>state := stop_line\<rparr>))
      | intr # rest \<Rightarrow>
          (let running =
             (if path_blocked obstacle_distance
              then Inr (cc\<lparr>state := stopping, stop_reason := blocked\<rparr>)
              else
                (let (fired, d) = at_line (stop_line_detector cc) stop_distance;
                     cc1 = cc\<lparr>stop_line_detector := d\<rparr>
                 in if fired then
                      (if length (drive_instructions cc1) > 1 then
                         (case finish_instruction cc1 of
                            Inl e \<Rightarrow> Inl e
                          | Inr cc2 \<Rightarrow> Inr (set_new_state cc2 speed))
                       else Inr (cc1\<lparr>finish_when_stopped := True,
                                     state := stopping,
                                     stop_reason := stop_line\<rparr>))
                    else Inr cc1))
           in case state cc of
                normal \<Rightarrow> running
              | intersection \<Rightarrow> running
              | stop_line \<Rightarrow>
                  (if path_blocked obstacle_distance then Inr (cc\<lparr>state := blocked\<rparr>)
                   else
                     (case (if number intr = stop then finish_instruction cc else Inr cc) of
                        Inl e \<Rightarrow> Inl e
                      | Inr cc1 \<Rightarrow>
                          (let (fired, d) = at_line (stop_line_detector cc1) stop_distance
                           in Inr (set_new_state (cc1\<lparr>stop_line_detector := d\<rparr>) speed))))
              | blocked \<Rightarrow>
                  (if \<not> path_blocked obstacle_distance then Inr (set_new_state cc speed)
                   else Inr cc)
              | stopping \<Rightarrow>
                  (if speed = 0 then
                     (let cc1 = cc\<lparr>state := stop_reason cc\<rparr>
                      in if finish_when_stopped cc1 then
                           (case finish_instruction cc1 of
                              Inl e \<Rightarrow> Inl e
                            | Inr cc2 \<Rightarrow> Inr (cc2\<lparr>finish_when_stopped := False\<rparr>))
                         else Inr cc1)
                   else Inr cc)))"

text \<open>A sequence of \<open>update_state\<close> calls, one per triple (obstacle distance,
  stop distance, speed); it stops at the first fault.\<close>

fun update_states ::
  "(int \<Rightarrow> bool) \<Rightarrow> ('d \<Rightarrow> int \<Rightarrow> bool \<times> 'd) \<Rightarrow>
   'd ControlCenter \<Rightarrow> (int \<times> int \<times> int) list \<Rightarrow> fault + 'd ControlCenter" where
  "update_states path_blocked at_line cc [] = Inr cc"
| "update_states path_blocked at_line cc ((obstacle_distance, stop_distance, speed) # ins) =
     (case update_state path_blocked at_line cc obstacle_distance stop_distance speed of
        Inl e \<Rightarrow> Inl e
      | Inr cc1 \<Rightarrow> update_states path_blocked at_line cc1 ins)"

section \<open>Output derivation\<close>

text \<open>The constants \<^verbatim>\<open>DEFAULT_SPEED\<close> and \<^verbatim>\<open>INTERSECTION_SPEED\<close> are defined
  outside the source file: parameters.\<close>

definition calculate_speed :: "int \<Rightarrow> int \<Rightarrow> 'd ControlCenter \<Rightarrow> int" where
  "calculate_speed DEFAULT_SPEED INTERSECTION_SPEED cc =
     (case state cc of
        normal \<Rightarrow> DEFAULT_SPEED
      | intersection \<Rightarrow> INTERSECTION_SPEED
      | stop_line \<Rightarrow> 0
      | stopping \<Rightarrow> 0
      | blocked \<Rightarrow> 0)"

definition choose_regulation_mode ::
  "'d ControlCenter \<Rightarrow> control_t \<Rightarrow> int \<Rightarrow> control_t \<times> 'd ControlCenter" where
  "choose_regulation_mode cc control_data status_code =
     (let cc1 =
        (if status_code = 0
         then cc\<lparr>consecutive_0_status_codes := consecutive_0_status_codes cc + 1\<rparr>
         else cc\<lparr>consecutive_0_status_codes := 0\<rparr>)
      in if consecutive_0_status_codes cc1 \<ge> status_code_threshold cc1
         then (control_data\<lparr>regulation_mode := auto_nominal\<rparr>, cc1)
         else (control_data\<lparr>regulation_mode := auto_critical\<rparr>, cc1))"

text \<open>The regulation mode of each tick of a sequence of status codes. Every
  tick starts from the same fresh \<open>control_data\<close> as \<^verbatim>\<open>operator()\<close> does.\<close>

fun regulation_modes :: "'d ControlCenter \<Rightarrow> int list \<Rightarrow> RegulationMode list" where
  "regulation_modes cc [] = []"
| "regulation_modes cc (status_code # codes) =
     (let (control_data, cc1) =
        choose_regulation_mode cc
          \<lparr>angle = 0, lateral_position = 0, speed_ref = 0, regulation_mode = auto_nominal\<rparr>
          status_code
      in regulation_mode control_data # regulation_modes cc1 codes)"

text \<open>\<^verbatim>\<open>calculate_lateral_position\<close> and \<^verbatim>\<open>calculate_angle\<close> read
  \<^verbatim>\<open>drive_instructions.front()\<close> with no check, and add the two readings
  as \<^verbatim>\<open>int\<close>s before halving the sum.\<close>

definition calculate_lateral_position :: "'d ControlCenter \<Rightarrow> int \<Rightarrow> int \<Rightarrow> fault + int" where
  "calculate_lateral_position cc lateral_left lateral_right =
     (case drive_instructions cc of
        [] \<Rightarrow> Inl Front_of_empty_list
      | intr # rest \<Rightarrow>
          (case number intr of
             forward \<Rightarrow>
               (case int_add lateral_left lateral_right of
                  Inl e \<Rightarrow> Inl e
                | Inr s \<Rightarrow> Inr (cpp_div s 2))
           | left \<Rightarrow> Inr lateral_left
           | right \<Rightarrow> Inr lateral_right
           | stop \<Rightarrow> Inr 0))"

text \<open>The member \<^verbatim>\<open>is_expected\<close> is defined outside the source file: a
  parameter, a predicate of the reading that may depend on the members
  (such as \<open>last_angle\<close>).\<close>

definition calculate_angle ::
  "('d ControlCenter \<Rightarrow> int \<Rightarrow> bool) \<Rightarrow> 'd ControlCenter \<Rightarrow> int \<Rightarrow> int \<Rightarrow>
   fault + (int \<times> 'd ControlCenter)" where
  "calculate_angle is_expected cc angle_left angle_right =
     (case drive_instructions cc of
        [] \<Rightarrow> Inl Front_of_empty_list
      | intr # rest \<Rightarrow>
          (let average =
                 (case int_add angle_left angle_right of
                    Inl e \<Rightarrow> Inl e
                  | Inr s \<Rightarrow> Inr (cpp_div s 2));
               angle =
                 (case number intr of
                    forward \<Rightarrow>
                      (if is_expected cc angle_left \<and> is_expected cc angle_right
                         then average
                       else if is_expected cc angle_left then Inr angle_left
                       else if is_expected cc angle_right then Inr angle_right
                       else average)
                  | left \<Rightarrow>
                      (if is_expected cc angle_left then Inr angle_left
                       else if is_expected cc angle_right then Inr angle_right
                       else Inr angle_left)
                  | right \<Rightarrow>
                      (if is_expected cc angle_right then Inr angle_right
                       else if is_expected cc angle_left then Inr angle_left
                       else Inr angle_right)
                  | stop \<Rightarrow> Inr 0)
           in case angle of
                Inl e \<Rightarrow> Inl e
              | Inr a \<Rightarrow> Inr (a, cc\<lparr>last_angle := a\<rparr>)))"

section \<open>The tick\<close>

text \<open>\<^verbatim>\<open>ControlCenter::operator()\<close>: the command of the tick and the control
  center after it, or the fault.\<close>

definition tick ::
  "(int \<Rightarrow> bool) \<Rightarrow> ('d \<Rightarrow> int \<Rightarrow> bool \<times> 'd) \<Rightarrow> ('d ControlCenter \<Rightarrow> int \<Rightarrow> bool) \<Rightarrow>
   int \<Rightarrow> int \<Rightarrow> 'd ControlCenter \<Rightarrow>
   int \<Rightarrow> int \<Rightarrow> int \<Rightarrow> int \<Rightarrow> int \<Rightarrow> int \<Rightarrow> int \<Rightarrow> int \<Rightarrow>
   fault + (control_t \<times> 'd ControlCenter)" where
  "tick path_blocked at_line is_expected DEFAULT_SPEED INTERSECTION_SPEED cc
       obstacle_distance stop_distance speed angle_left angle_right
       lateral_left lateral_right image_processing_status_code =
     (let control_data =
            \<lparr>angle = 0, lateral_position = 0, speed_ref = 0, regulation_mode = auto_nominal\<rparr>;
          stop_distance1 = (if stop_distance = - 1 then 1000 else stop_distance);
          obstacle_distance1 = (if obstacle_distance = 0 then 1000 else obstacle_distance)
      in case distance_filter (obstacle_distance_filter cc) obstacle_distance1 of
           Inl e \<Rightarrow> Inl e
         | Inr (obstacle_distance2, f1) \<Rightarrow>
        (case distance_filter (stop_distance_filter cc) stop_distance1 of
           Inl e \<Rightarrow> Inl e
         | Inr (stop_distance2, f2) \<Rightarrow>
        (case update_state path_blocked at_line
                (cc\<lparr>obstacle_distance_filter := f1, stop_distance_filter := f2\<rparr>)
                obstacle_distance2 stop_distance2 speed of
           Inl e \<Rightarrow> Inl e
         | Inr cc1 \<Rightarrow>
        (let (control_data1, cc2) =
               choose_regulation_mode cc1 control_data image_processing_status_code
         in case calculate_angle is_expected cc2 angle_left angle_right of
              Inl e \<Rightarrow> Inl e
            | Inr (a, cc3) \<Rightarrow>
           (case calculate_lateral_position cc3 lateral_left lateral_right of
              Inl e \<Rightarrow> Inl e
            | Inr l \<Rightarrow>
                Inr (control_data1\<lparr>angle := a, lateral_position := l,
                       speed_ref := calculate_speed DEFAULT_SPEED INTERSECTION_SPEED cc3\<rparr>,
                     cc3))))))"

section \<open>Missions\<close>

text \<open>
  The path finder is a class of its own, outside the source file:
  \<^verbatim>\<open>solve(start, target)\<close> followed by \<^verbatim>\<open>get_drive_mission()\<close> and
  \<^verbatim>\<open>get_road_segments()\<close> is the parameter \<open>path_finder\<close>, which gives both
  sequences for a leg.

  The loop that saves a path advances one iterator over the instructions
  and one over the segments, and tests only the first: with fewer segments
  than instructions it reads through the past-the-end iterator.
\<close>

fun save_path ::
  "'d ControlCenter \<Rightarrow> InstructionNumber list \<Rightarrow> string list \<Rightarrow> fault + 'd ControlCenter" where
  "save_path cc [] segments = Inr cc"
| "save_path cc (instruction # instructions) [] = Inl Past_the_end_iterator"
| "save_path cc (instruction # instructions) (segment # segments) =
     save_path (add_drive_instruction_id cc instruction segment) instructions segments"

fun drive_missions_loop ::
  "(string \<Rightarrow> string \<Rightarrow> InstructionNumber list \<times> string list) \<Rightarrow>
   'd ControlCenter \<Rightarrow> string \<Rightarrow> string list \<Rightarrow> fault + 'd ControlCenter" where
  "drive_missions_loop path_finder cc start_node [] = Inr cc"
| "drive_missions_loop path_finder cc start_node (target_node # target_list) =
     (let cc1 = add_drive_instruction_id cc stop start_node;
          cc2 = cc1\<lparr>road_segments := road_segments cc1 @ [start_node]\<rparr>;
          (new_instructions, new_segments) = path_finder start_node target_node
      in case save_path cc2 new_instructions new_segments of
           Inl e \<Rightarrow> Inl e
         | Inr cc3 \<Rightarrow>
             drive_missions_loop path_finder
               (cc3\<lparr>road_segments := road_segments cc3 @ new_segments\<rparr>)
               target_node target_list)"

text \<open>\<^verbatim>\<open>set_drive_missions\<close> reads \<^verbatim>\<open>target_list.front()\<close> with no check.\<close>

definition set_drive_missions ::
  "(string \<Rightarrow> string \<Rightarrow> InstructionNumber list \<times> string list) \<Rightarrow>
   'd ControlCenter \<Rightarrow> string list \<Rightarrow> fault + 'd ControlCenter" where
  "set_drive_missions path_finder cc target_list =
     (case target_list of
        [] \<Rightarrow> Inl Front_of_empty_list
      | start_node # targets \<Rightarrow>
          drive_missions_loop path_finder
            (cc\<lparr>drive_instructions := [], road_segments := []\<rparr>) start_node targets)"

text \<open>\<^verbatim>\<open>get_current_drive_instruction\<close> reads the front with no check.\<close>

definition get_current_drive_instruction :: "'d ControlCenter \<Rightarrow> fault + drive_instruction_t" where
  "get_current_drive_instruction cc =
     (case drive_instructions cc of
        [] \<Rightarrow> Inl Front_of_empty_list
      | intr # rest \<Rightarrow> Inr intr)"

definition get_current_road_segment :: "'d ControlCenter \<Rightarrow> string" where
  "get_current_road_segment cc =
     (if road_segments cc = [] then ''end'' else hd (road_segments cc))"

definition finished_instruction :: "'d ControlCenter \<Rightarrow> bool" where
  "finished_instruction cc = (finished_id_buffer cc \<noteq> [])"

definition get_finished_instruction_id :: "'d ControlCenter \<Rightarrow> string \<times> 'd ControlCenter" where
  "get_finished_instruction_id cc =
     (case finished_id_buffer cc of
        [] \<Rightarrow> ('''', cc)
      | ident # rest \<Rightarrow> (ident, cc\<lparr>finished_id_buffer := rest\<rparr>))"

section \<open>Notions used to state the properties\<close>

text \<open>The number of consecutive zero status codes at the end of a sequence:
  the running count of the spec, the current tick included.\<close>

definition zero_run :: "int list \<Rightarrow> nat" where
  "zero_run codes = length (takeWhile (\<lambda>c. c = 0) (rev codes))"

text \<open>The instructions of one leg as the spec describes a spliced mission:
  the planner's instructions in order, each with the road segment of the
  same step as its id.\<close>

definition leg_instructions ::
  "InstructionNumber list \<times> string list \<Rightarrow> drive_instruction_t list" where
  "leg_instructions leg =
     map (\<lambda>(instruction, segment). \<lparr>number = instruction, id' = segment\<rparr>)
       (zip (fst leg) (snd leg))"

text \<open>The instruction numbers, the ids and the road segments of a mission
  that starts at \<open>start_node\<close> and visits the targets in order: for each leg
  a \<open>stop\<close> with the name of the leg's start, then the leg.\<close>

fun mission_numbers ::
  "(string \<Rightarrow> string \<Rightarrow> InstructionNumber list \<times> string list) \<Rightarrow>
   string \<Rightarrow> string list \<Rightarrow> InstructionNumber list" where
  "mission_numbers path_finder start_node [] = []"
| "mission_numbers path_finder start_node (target_node # targets) =
     stop # fst (path_finder start_node target_node) @
     mission_numbers path_finder target_node targets"

fun mission_ids ::
  "(string \<Rightarrow> string \<Rightarrow> InstructionNumber list \<times> string list) \<Rightarrow>
   string \<Rightarrow> string list \<Rightarrow> string list" where
  "mission_ids path_finder start_node [] = []"
| "mission_ids path_finder start_node (target_node # targets) =
     start_node #
     take (length (fst (path_finder start_node target_node)))
       (snd (path_finder start_node target_node)) @
     mission_ids path_finder target_node targets"

fun mission_segments ::
  "(string \<Rightarrow> string \<Rightarrow> InstructionNumber list \<times> string list) \<Rightarrow>
   string \<Rightarrow> string list \<Rightarrow> string list" where
  "mission_segments path_finder start_node [] = []"
| "mission_segments path_finder start_node (target_node # targets) =
     start_node # snd (path_finder start_node target_node) @
     mission_segments path_finder target_node targets"

text \<open>The path finder gives, for every leg of the mission, at least as many
  road segments as instructions (section 6 of the spec asks for as many).\<close>

fun legs_covered ::
  "(string \<Rightarrow> string \<Rightarrow> InstructionNumber list \<times> string list) \<Rightarrow>
   string \<Rightarrow> string list \<Rightarrow> bool" where
  "legs_covered path_finder start_node [] = True"
| "legs_covered path_finder start_node (target_node # targets) =
     (length (fst (path_finder start_node target_node))
        \<le> length (snd (path_finder start_node target_node)) \<and>
      legs_covered path_finder target_node targets)"

text \<open>The alignment of the two queues.\<close>

definition plan_aligned :: "'d ControlCenter \<Rightarrow> bool" where
  "plan_aligned cc = (length (road_segments cc) \<le> length (drive_instructions cc))"

text \<open>The operations that change the control center, and a sequence of them
  run from a given control center; the run stops at the first fault.\<close>

datatype operation =
    Add_drive_instruction drive_instruction_t
  | Add_drive_instruction_id InstructionNumber string
  | Finish_instruction
  | Set_drive_missions "string list"
  | Update_state int int int
  | Tick int int int int int int int int
  | Get_finished_instruction_id

text \<open>What is defined outside the source file, in one record: the path
  finder, \<open>path_blocked\<close>, the detector's \<open>at_line\<close>, \<open>is_expected\<close> and the two
  speed constants.\<close>

record 'd externals =
  ext_path_finder :: "string \<Rightarrow> string \<Rightarrow> InstructionNumber list \<times> string list"
  ext_path_blocked :: "int \<Rightarrow> bool"
  ext_at_line :: "'d \<Rightarrow> int \<Rightarrow> bool \<times> 'd"
  ext_is_expected :: "'d ControlCenter \<Rightarrow> int \<Rightarrow> bool"
  ext_DEFAULT_SPEED :: int
  ext_INTERSECTION_SPEED :: int

fun perform :: "'d externals \<Rightarrow> 'd ControlCenter \<Rightarrow> operation \<Rightarrow> fault + 'd ControlCenter" where
  "perform ext cc (Add_drive_instruction drive_instruction) =
     Inr (add_drive_instruction cc drive_instruction)"
| "perform ext cc (Add_drive_instruction_id instruction ident) =
     Inr (add_drive_instruction_id cc instruction ident)"
| "perform ext cc Finish_instruction = finish_instruction cc"
| "perform ext cc (Set_drive_missions target_list) =
     set_drive_missions (ext_path_finder ext) cc target_list"
| "perform ext cc (Update_state obstacle_distance stop_distance speed) =
     update_state (ext_path_blocked ext) (ext_at_line ext) cc
       obstacle_distance stop_distance speed"
| "perform ext cc (Tick obstacle_distance stop_distance speed angle_left angle_right
       lateral_left lateral_right image_processing_status_code) =
     (case tick (ext_path_blocked ext) (ext_at_line ext) (ext_is_expected ext)
             (ext_DEFAULT_SPEED ext) (ext_INTERSECTION_SPEED ext) cc
             obstacle_distance stop_distance speed angle_left angle_right
             lateral_left lateral_right image_processing_status_code of
        Inl e \<Rightarrow> Inl e
      | Inr (control_data, cc1) \<Rightarrow> Inr cc1)"
| "perform ext cc Get_finished_instruction_id =
     Inr (snd (get_finished_instruction_id cc))"

fun perform_all ::
  "'d externals \<Rightarrow> 'd ControlCenter \<Rightarrow> operation list \<Rightarrow> fault + 'd ControlCenter" where
  "perform_all ext cc [] = Inr cc"
| "perform_all ext cc (operation # operations) =
     (case perform ext cc operation of
        Inl e \<Rightarrow> Inl e
      | Inr cc1 \<Rightarrow> perform_all ext cc1 operations)"

text \<open>\<open>n\<close> calls of \<open>finish_instruction\<close> in a row.\<close>

fun finish_instructions :: "nat \<Rightarrow> 'd ControlCenter \<Rightarrow> fault + 'd ControlCenter" where
  "finish_instructions 0 cc = Inr cc"
| "finish_instructions (Suc n) cc =
     (case finish_instruction cc of
        Inl e \<Rightarrow> Inl e
      | Inr cc1 \<Rightarrow> finish_instructions n cc1)"

text \<open>\<open>n\<close> calls of \<open>get_finished_instruction_id\<close> in a row: the ids they
  return, in order, and the control center after them.\<close>

fun poll_finished :: "nat \<Rightarrow> 'd ControlCenter \<Rightarrow> string list \<times> 'd ControlCenter" where
  "poll_finished 0 cc = ([], cc)"
| "poll_finished (Suc n) cc =
     (let (ident, cc1) = get_finished_instruction_id cc;
          (idents, cc2) = poll_finished n cc1
      in (ident # idents, cc2))"

section \<open>Properties\<close>

text \<open>
  C5. With an empty instruction plan, \<open>update_state\<close> sets the state to
  \<open>stopping\<close> with stop reason \<open>stop_line\<close> when the speed is positive and to
  \<open>stop_line\<close> otherwise. Nothing else changes (the plan, the road segments,
  the buffer of finished ids, the detector), whatever \<open>path_blocked\<close> and the
  detector would answer: no other branch of the state machine is taken.
\<close>

theorem update_state_empty_plan:
  assumes "drive_instructions cc = []"
  shows "update_state path_blocked at_line cc obstacle_distance stop_distance speed =
    Inr (if speed > 0 then cc\<lparr>state := stopping, stop_reason := stop_line\<rparr>
         else cc\<lparr>state := stop_line\<rparr>)"
  using assms by (simp add: update_state_def)

theorem update_state_empty_plan_witness:
  "drive_instructions (ControlCenter (\<lambda>c h. ()) 3 3 2 5 3) = [] \<and>
   update_state (\<lambda>d. d < 30) (\<lambda>d x. (True, d)) (ControlCenter (\<lambda>c h. ()) 3 3 2 5 3) 10 5 7 =
     Inr ((ControlCenter (\<lambda>c h. ()) 3 3 2 5 3)\<lparr>state := stopping, stop_reason := stop_line\<rparr>) \<and>
   update_state (\<lambda>d. d < 30) (\<lambda>d x. (True, d)) (ControlCenter (\<lambda>c h. ()) 3 3 2 5 3) 10 5 0 =
     Inr ((ControlCenter (\<lambda>c h. ()) 3 3 2 5 3)\<lparr>state := stop_line\<rparr>)"
proof -
  have e: "drive_instructions (ControlCenter (\<lambda>c h. ()) 3 3 2 5 3) = []"
    by (simp add: ControlCenter_def)
  show ?thesis
    using e update_state_empty_plan [OF e, of "\<lambda>d. d < 30" "\<lambda>d x. (True, d)" 10 5 7]
      update_state_empty_plan [OF e, of "\<lambda>d. d < 30" "\<lambda>d x. (True, d)" 10 5 0]
    by simp
qed

text \<open>
  C7. Right after construction, before any tick or mission call, the state
  that \<open>get_state\<close> returns is \<open>stop_line\<close>, for all constructor arguments.
\<close>

theorem initial_state_stop_line:
  "get_state (ControlCenter StopLineDetector obstacle_distance_filter_len
      stop_distance_filter_len consecutive_param high_count_param threshold) = stop_line"
  by (simp add: get_state_def ControlCenter_def)

text \<open>With a non-empty plan and readings whose sum is an \<^verbatim>\<open>int\<close>,
  \<open>calculate_angle\<close> follows the policy of its comment: for \<open>forward\<close> the
  truncated average of the two readings when both are expected, the one
  expected reading when exactly one is, and the truncated average when
  neither is; for \<open>left\<close> the left reading if it is expected, else the right
  reading if that is expected, else the left reading; for \<open>right\<close> the same
  with the sides exchanged. For \<open>left\<close> and \<open>right\<close>, and for \<open>forward\<close> with
  exactly one expected reading, the sum is not computed.\<close>

lemma calculate_angle_in_range:
  assumes "drive_instructions cc = intr # rest"
  shows "(number intr = forward \<and> INT_MIN \<le> angle_left + angle_right \<and>
          angle_left + angle_right \<le> INT_MAX \<longrightarrow>
           (\<exists>cc1. calculate_angle is_expected cc angle_left angle_right =
              Inr (if is_expected cc angle_left \<and> is_expected cc angle_right
                     then cpp_div (angle_left + angle_right) 2
                   else if is_expected cc angle_left then angle_left
                   else if is_expected cc angle_right then angle_right
                   else cpp_div (angle_left + angle_right) 2, cc1))) \<and>
         (number intr = forward \<and> is_expected cc angle_left \<noteq> is_expected cc angle_right \<longrightarrow>
           (\<exists>cc1. calculate_angle is_expected cc angle_left angle_right =
              Inr (if is_expected cc angle_left then angle_left else angle_right, cc1))) \<and>
         (number intr = left \<longrightarrow>
           (\<exists>cc1. calculate_angle is_expected cc angle_left angle_right =
              Inr (if is_expected cc angle_left then angle_left
                   else if is_expected cc angle_right then angle_right
                   else angle_left, cc1))) \<and>
         (number intr = right \<longrightarrow>
           (\<exists>cc1. calculate_angle is_expected cc angle_left angle_right =
              Inr (if is_expected cc angle_right then angle_right
                   else if is_expected cc angle_left then angle_left
                   else angle_right, cc1)))"
  using assms by (auto simp: calculate_angle_def int_add_def Let_def)

text \<open>The scenario of the spec: the front instruction is \<open>forward\<close>, the left
  reading 1000 is not expected, the right reading 42 is: the angle is 42.
  With \<open>left\<close> in front the same readings give 42 too, and 7 and 42, both
  expected, give 24 for \<open>forward\<close> and 42 for \<open>right\<close>.\<close>

lemma calculate_angle_in_range_examples:
  "(\<exists>cc1. calculate_angle (\<lambda>cc a. \<bar>a - last_angle cc\<bar> \<le> 90)
      (add_drive_instruction_id (ControlCenter (\<lambda>c h. ()) 3 3 2 5 3) forward ''s1'')
      1000 42 = Inr (42, cc1)) \<and>
   (\<exists>cc1. calculate_angle (\<lambda>cc a. \<bar>a - last_angle cc\<bar> \<le> 90)
      (add_drive_instruction_id (ControlCenter (\<lambda>c h. ()) 3 3 2 5 3) left ''s1'')
      1000 42 = Inr (42, cc1)) \<and>
   (\<exists>cc1. calculate_angle (\<lambda>cc a. \<bar>a - last_angle cc\<bar> \<le> 90)
      (add_drive_instruction_id (ControlCenter (\<lambda>c h. ()) 3 3 2 5 3) forward ''s1'')
      7 42 = Inr (24, cc1)) \<and>
   (\<exists>cc1. calculate_angle (\<lambda>cc a. \<bar>a - last_angle cc\<bar> \<le> 90)
      (add_drive_instruction_id (ControlCenter (\<lambda>c h. ()) 3 3 2 5 3) right ''s1'')
      7 42 = Inr (42, cc1))"
proof -
  have f: "drive_instructions
      (add_drive_instruction_id (ControlCenter (\<lambda>c h. ()) 3 3 2 5 3) k ''s1'') =
      \<lparr>number = k, id' = ''s1''\<rparr> # []" for k
    by (simp add: add_drive_instruction_id_def ControlCenter_def)
  have l: "last_angle
      (add_drive_instruction_id (ControlCenter (\<lambda>c h. ()) 3 3 2 5 3) k ''s1'') = 0" for k
    by (simp add: add_drive_instruction_id_def ControlCenter_def)
  show ?thesis
    using calculate_angle_in_range [OF f, of forward 1000 42 "\<lambda>cc a. \<bar>a - last_angle cc\<bar> \<le> 90"]
      calculate_angle_in_range [OF f, of left 1000 42 "\<lambda>cc a. \<bar>a - last_angle cc\<bar> \<le> 90"]
      calculate_angle_in_range [OF f, of forward 7 42 "\<lambda>cc a. \<bar>a - last_angle cc\<bar> \<le> 90"]
      calculate_angle_in_range [OF f, of right 7 42 "\<lambda>cc a. \<bar>a - last_angle cc\<bar> \<le> 90"]
    by (simp add: l cpp_div_def INT_MIN_def INT_MAX_def)
qed

text \<open>
  C8. The claim is that, for every pair of angle readings, \<open>calculate_angle\<close>
  with \<open>forward\<close> in front returns the truncated average of the readings when
  both are expected and when neither is. The code computes the average as
  \<^verbatim>\<open>(angle_left + angle_right) / 2\<close> on \<^verbatim>\<open>int\<close>s: for two readings that agree
  on being expected or not and whose sum is not an \<^verbatim>\<open>int\<close>, the addition
  overflows, which C++ leaves undefined, and there is no average. The
  branch for two unexpected readings is the one that bad data reaches.
\<close>

theorem calculate_angle_forward_overflow:
  assumes "drive_instructions cc = intr # rest"
    and "number intr = forward"
    and "is_expected cc angle_left = is_expected cc angle_right"
    and "angle_left + angle_right < INT_MIN \<or> INT_MAX < angle_left + angle_right"
  shows "calculate_angle is_expected cc angle_left angle_right = Inl Signed_overflow"
  using assms by (auto simp: calculate_angle_def int_add_def Let_def)

text \<open>Both readings 2000000000, whose average is 2000000000: once with a
  predicate that expects every reading, once with one that expects readings
  up to 90 from the last angle and so rejects both.\<close>

theorem calculate_angle_forward_overflow_witness:
  "drive_instructions
     (add_drive_instruction_id (ControlCenter (\<lambda>c h. ()) 3 3 2 5 3) forward ''s1'') =
     [\<lparr>number = forward, id' = ''s1''\<rparr>] \<and>
   INT_MAX < 2000000000 + 2000000000 \<and>
   cpp_div (2000000000 + 2000000000) 2 = 2000000000 \<and>
   calculate_angle (\<lambda>cc a. True)
     (add_drive_instruction_id (ControlCenter (\<lambda>c h. ()) 3 3 2 5 3) forward ''s1'')
     2000000000 2000000000 = Inl Signed_overflow \<and>
   calculate_angle (\<lambda>cc a. \<bar>a - last_angle cc\<bar> \<le> 90)
     (add_drive_instruction_id (ControlCenter (\<lambda>c h. ()) 3 3 2 5 3) forward ''s1'')
     2000000000 2000000000 = Inl Signed_overflow"
proof -
  have f: "drive_instructions
      (add_drive_instruction_id (ControlCenter (\<lambda>c h. ()) 3 3 2 5 3) forward ''s1'') =
      \<lparr>number = forward, id' = ''s1''\<rparr> # []"
    by (simp add: add_drive_instruction_id_def ControlCenter_def)
  have n: "number \<lparr>number = forward, id' = ''s1''\<rparr> = forward" by simp
  have o: "2000000000 + 2000000000 < INT_MIN \<or> INT_MAX < 2000000000 + 2000000000"
    by (simp add: INT_MAX_def)
  show ?thesis
    using f o
      calculate_angle_forward_overflow [OF f n _ o, of "\<lambda>cc a. True"]
      calculate_angle_forward_overflow [OF f n _ o, of "\<lambda>cc a. \<bar>a - last_angle cc\<bar> \<le> 90"]
    by (simp add: INT_MAX_def cpp_div_def)
qed

text \<open>
  C1. The claim is that every tick returns a command, also with an empty
  plan. The code does not: with an empty plan \<open>update_state\<close> returns, and
  then \<open>calculate_angle\<close> (and \<open>calculate_lateral_position\<close>) read the front of
  the empty list, which C++ leaves undefined. The tick has no result.
\<close>

theorem tick_empty_plan_faults:
  assumes "drive_instructions cc = []"
  shows "calculate_angle is_expected cc angle_left angle_right = Inl Front_of_empty_list \<and>
         calculate_lateral_position cc lateral_left lateral_right = Inl Front_of_empty_list \<and>
         (\<exists>e. tick path_blocked at_line is_expected DEFAULT_SPEED INTERSECTION_SPEED cc
                obstacle_distance stop_distance speed angle_left angle_right
                lateral_left lateral_right image_processing_status_code = Inl e)"
proof -
  have a: "calculate_angle is_expected c angle_left angle_right = Inl Front_of_empty_list"
    if "drive_instructions c = []" for c :: "'a ControlCenter"
    using that by (simp add: calculate_angle_def)
  have u: "update_state path_blocked at_line c od sd speed =
      Inr (if speed > 0 then c\<lparr>state := stopping, stop_reason := stop_line\<rparr>
         else c\<lparr>state := stop_line\<rparr>)"
    if "drive_instructions c = []" for c :: "'a ControlCenter" and od sd
    using that by (simp add: update_state_def)
  have "\<exists>e. tick path_blocked at_line is_expected DEFAULT_SPEED INTERSECTION_SPEED cc
                obstacle_distance stop_distance speed angle_left angle_right
                lateral_left lateral_right image_processing_status_code = Inl e"
    using assms
    by (auto simp: tick_def Let_def u a choose_regulation_mode_def split: sum.splits prod.splits)
  then show ?thesis using assms
    by (simp add: calculate_angle_def calculate_lateral_position_def)
qed

text \<open>The first tick of a freshly constructed control center (filters of
  length 3, threshold 3), with readings that show a clear road.\<close>

theorem tick_empty_plan_faults_witness:
  "drive_instructions (ControlCenter (\<lambda>c h. ()) 3 3 2 5 3) = [] \<and>
   calculate_angle (\<lambda>cc a. True) (ControlCenter (\<lambda>c h. ()) 3 3 2 5 3) 0 0 =
     Inl Front_of_empty_list \<and>
   calculate_lateral_position (ControlCenter (\<lambda>c h. ()) 3 3 2 5 3) 0 0 =
     Inl Front_of_empty_list \<and>
   tick (\<lambda>d. d < 30) (\<lambda>d x. (False, d)) (\<lambda>cc a. True) 100 50
     (ControlCenter (\<lambda>c h. ()) 3 3 2 5 3) 0 (- 1) 0 0 0 0 0 0 = Inl Front_of_empty_list"
proof -
  have e: "drive_instructions (ControlCenter (\<lambda>c h. ()) 3 3 2 5 3) = []"
    by (simp add: ControlCenter_def)
  have t: "tick (\<lambda>d. d < 30) (\<lambda>d x. (False, d)) (\<lambda>cc a. True) 100 50
     (ControlCenter (\<lambda>c h. ()) 3 3 2 5 3) 0 (- 1) 0 0 0 0 0 0 = Inl Front_of_empty_list"
    by (simp add: tick_def ControlCenter_def DistanceFilter_def distance_filter_def
        update_state_def choose_regulation_mode_def calculate_angle_def Let_def)
  show ?thesis
    using e t tick_empty_plan_faults [OF e, of "\<lambda>cc a. True" 0 0 0 0]
    by simp
qed

subsection \<open>The distance filter under constant input\<close>

lemma cpp_div_mult_self:
  assumes "0 < n"
  shows "cpp_div (n * x) n = x"
proof -
  have d: "\<bar>n * x\<bar> div \<bar>n\<bar> = \<bar>x\<bar>"
    using assms by (simp add: abs_mult)
  have s: "(n * x < 0) = (x < 0)"
    using assms by (simp add: mult_less_0_iff)
  show ?thesis
    unfolding cpp_div_def d s using assms by auto
qed

text \<open>After \<open>n + 1\<close> calls with \<open>x\<close> the window has lost its \<open>n + 1\<close> oldest
  samples and ends with \<open>n + 1\<close> copies of \<open>x\<close>.\<close>

lemma distance_filter_repeat_Suc:
  "w \<noteq> [] \<Longrightarrow>
   distance_filter_repeat (Suc n) w x =
     Inr (Some (cpp_div (sum_list (drop (Suc n) (w @ replicate (Suc n) x))) (int (length w))),
          drop (Suc n) (w @ replicate (Suc n) x))"
proof (induction n arbitrary: w)
  case 0
  then show ?case by (cases w) (simp_all add: distance_filter_def Let_def)
next
  case (Suc n)
  from Suc.prems obtain a u where w: "w = a # u" by (cases w) auto
  have ne: "u @ [x] \<noteq> []" by simp
  have "distance_filter_repeat (Suc (Suc n)) w x = distance_filter_repeat (Suc n) (u @ [x]) x"
    by (simp add: w distance_filter_def Let_def)
  also have "\<dots> = Inr (Some (cpp_div (sum_list (drop (Suc n) ((u @ [x]) @ replicate (Suc n) x)))
                 (int (length (u @ [x])))),
          drop (Suc n) ((u @ [x]) @ replicate (Suc n) x))"
    by (rule Suc.IH [OF ne])
  also have "(u @ [x]) @ replicate (Suc n) x = u @ replicate (Suc (Suc n)) x"
    by (simp add: replicate_app_Cons_same)
  finally show ?case by (simp add: w)
qed

text \<open>
  C9. For every window length \<open>N \<ge> 1\<close>, seed \<open>v0\<close> and input \<open>x\<close>, a filter
  constructed with \<open>(N, v0)\<close> that receives \<open>x\<close> on \<open>N\<close> consecutive calls
  returns \<open>x\<close> on the \<open>N\<close>-th call (and its window is then \<open>N\<close> copies of \<open>x\<close>).
\<close>

theorem filter_constant_input:
  assumes "1 \<le> N"
  shows "distance_filter_repeat N (DistanceFilter N v0) x = Inr (Some x, DistanceFilter N x)"
proof -
  from assms obtain n where N: "N = Suc n" by (cases N) auto
  have ne: "DistanceFilter N v0 \<noteq> []" by (simp add: DistanceFilter_def N)
  show ?thesis
    unfolding N using distance_filter_repeat_Suc [OF ne [unfolded N], of n x]
    by (simp add: DistanceFilter_def cpp_div_mult_self sum_list_replicate
        del: replicate_Suc distance_filter_repeat.simps)
qed

text \<open>A window of 3 seeded with 100 and fed \<open>- 7\<close> three times; after two
  calls the output is still 28, the truncated mean of 100, \<open>- 7\<close>, \<open>- 7\<close>.\<close>

theorem filter_constant_input_witness:
  "(1::nat) \<le> 3 \<and>
   distance_filter_repeat 3 (DistanceFilter 3 100) (- 7) = Inr (Some (- 7), [- 7, - 7, - 7]) \<and>
   distance_filter_repeat 2 (DistanceFilter 3 100) (- 7) = Inr (Some 28, [100, - 7, - 7])"
proof -
  have h: "(1::nat) \<le> 3" by simp
  have r: "DistanceFilter 3 (- 7) = [- 7, - 7, - 7]"
    by (simp add: DistanceFilter_def numeral_3_eq_3)
  have two: "distance_filter_repeat 2 (DistanceFilter 3 100) (- 7) = Inr (Some 28, [100, - 7, - 7])"
    by (simp add: numeral_2_eq_2 numeral_3_eq_3 DistanceFilter_def distance_filter_def
        Let_def cpp_div_def)
  show ?thesis
    using h two filter_constant_input [OF h, of 100 "- 7"] by (simp add: r)
qed

subsection \<open>The regulation mode\<close>

lemma zero_run_Cons:
  "zero_run (a # codes) =
     (if \<forall>x \<in> set codes. x = 0 then (if a = 0 then Suc (length codes) else length codes)
      else zero_run codes)"
  by (auto simp: zero_run_def takeWhile_append takeWhile_eq_all_conv [THEN iffD2])

lemma choose_regulation_mode_threshold:
  "status_code_threshold (snd (choose_regulation_mode cc cd c)) = status_code_threshold cc"
  by (simp add: choose_regulation_mode_def Let_def)

lemma choose_regulation_mode_count:
  "consecutive_0_status_codes (snd (choose_regulation_mode cc cd c)) =
     (if c = 0 then Suc (consecutive_0_status_codes cc) else 0)"
  by (simp add: choose_regulation_mode_def Let_def)

lemma choose_regulation_mode_mode:
  "regulation_mode (fst (choose_regulation_mode cc cd c)) =
     (if status_code_threshold cc \<le> (if c = 0 then Suc (consecutive_0_status_codes cc) else 0)
      then auto_nominal else auto_critical)"
  by (simp add: choose_regulation_mode_def Let_def)

lemma regulation_modes_Cons:
  "regulation_modes cc (c # codes) =
     regulation_mode (fst (choose_regulation_mode cc
          \<lparr>angle = 0, lateral_position = 0, speed_ref = 0, regulation_mode = auto_nominal\<rparr> c)) #
     regulation_modes (snd (choose_regulation_mode cc
          \<lparr>angle = 0, lateral_position = 0, speed_ref = 0, regulation_mode = auto_nominal\<rparr> c)) codes"
  by (simp add: split_def Let_def)

text \<open>The mode of tick \<open>i\<close>, from any value of the counter before the first
  tick: as long as every code so far was zero the old count is still part of
  the run.\<close>

lemma regulation_modes_nth:
  "i < length codes \<Longrightarrow>
   regulation_modes cc codes ! i =
     (if status_code_threshold cc \<le>
          (if \<forall>x \<in> set (take (Suc i) codes). x = 0
           then consecutive_0_status_codes cc + Suc i
           else zero_run (take (Suc i) codes))
      then auto_nominal else auto_critical)"
proof (induction codes arbitrary: cc i)
  case Nil
  then show ?case by simp
next
  case (Cons a codes)
  show ?case
  proof (cases i)
    case 0
    then show ?thesis
      by (simp add: regulation_modes_Cons choose_regulation_mode_mode zero_run_def
          del: regulation_modes.simps)
  next
    case (Suc j)
    with Cons.prems have j: "j < length codes" by simp
    have len: "length (take (Suc j) codes) = Suc j" using j by simp
    show ?thesis
      unfolding Suc regulation_modes_Cons nth_Cons_Suc Cons.IH [OF j]
        choose_regulation_mode_threshold choose_regulation_mode_count take_Suc_Cons
        zero_run_Cons len
      by auto
  qed
qed

text \<open>What holds for every threshold, from a counter at 0 (a new control
  center), for every sequence of status codes and every tick \<open>i\<close> of the
  sequence: the mode of the tick is \<open>auto_nominal\<close> if and only if the number
  of consecutive zero codes up to and including the tick has reached the
  threshold, and \<open>auto_critical\<close> otherwise. A non-zero code brings that
  number to 0, so with a threshold of at least 1 the mode of that tick is
  \<open>auto_critical\<close>, and the mode is \<open>auto_nominal\<close> again only on a tick that
  ends a run of threshold-many zero codes.\<close>

lemma regulation_mode_hysteresis:
  assumes "consecutive_0_status_codes cc = 0" and "i < length codes"
  shows "(regulation_modes cc codes ! i = auto_nominal \<longleftrightarrow>
            status_code_threshold cc \<le> zero_run (take (Suc i) codes)) \<and>
         (regulation_modes cc codes ! i = auto_critical \<longleftrightarrow>
            zero_run (take (Suc i) codes) < status_code_threshold cc) \<and>
         (codes ! i \<noteq> 0 \<longrightarrow> zero_run (take (Suc i) codes) = 0) \<and>
         (codes ! i \<noteq> 0 \<and> 0 < status_code_threshold cc \<longrightarrow>
            regulation_modes cc codes ! i = auto_critical)"
proof -
  have all0: "zero_run xs = length xs" if "\<forall>x \<in> set xs. x = 0" for xs
    using that by (simp add: zero_run_def takeWhile_eq_all_conv [THEN iffD2])
  have m: "regulation_modes cc codes ! i =
     (if status_code_threshold cc \<le> zero_run (take (Suc i) codes)
      then auto_nominal else auto_critical)"
    using regulation_modes_nth [OF assms(2), of cc] assms all0 [of "take (Suc i) codes"]
    by (simp split: if_splits)
  have z: "zero_run (take (Suc i) codes) = 0" if "codes ! i \<noteq> 0"
    using that assms(2) by (simp add: take_Suc_conv_app_nth zero_run_def)
  show ?thesis using m z by auto
qed

text \<open>Threshold 3 and the codes 0, 0, 0, 0, 7, 0, 0, 0: the mode is nominal
  from the third tick, critical on the tick with code 7 and on the two
  ticks after it, nominal again on the third zero after it.\<close>

lemma regulation_mode_hysteresis_examples:
  "consecutive_0_status_codes (ControlCenter (\<lambda>c h. ()) 3 3 2 5 3) = 0 \<and>
   regulation_modes (ControlCenter (\<lambda>c h. ()) 3 3 2 5 3) [0, 0, 0, 0, 7, 0, 0, 0] ! 1 = auto_critical \<and>
   regulation_modes (ControlCenter (\<lambda>c h. ()) 3 3 2 5 3) [0, 0, 0, 0, 7, 0, 0, 0] ! 2 = auto_nominal \<and>
   regulation_modes (ControlCenter (\<lambda>c h. ()) 3 3 2 5 3) [0, 0, 0, 0, 7, 0, 0, 0] ! 4 = auto_critical \<and>
   regulation_modes (ControlCenter (\<lambda>c h. ()) 3 3 2 5 3) [0, 0, 0, 0, 7, 0, 0, 0] ! 6 = auto_critical \<and>
   regulation_modes (ControlCenter (\<lambda>c h. ()) 3 3 2 5 3) [0, 0, 0, 0, 7, 0, 0, 0] ! 7 = auto_nominal"
proof -
  have c: "consecutive_0_status_codes (ControlCenter (\<lambda>c h. ()) 3 3 2 5 3) = 0"
    and t: "status_code_threshold (ControlCenter (\<lambda>c h. ()) 3 3 2 5 3) = 3"
    by (simp_all add: ControlCenter_def)
  have i: "1 < length [0, 0, 0, 0, 7, 0, 0, 0::int]" "2 < length [0, 0, 0, 0, 7, 0, 0, 0::int]"
    "4 < length [0, 0, 0, 0, 7, 0, 0, 0::int]" "6 < length [0, 0, 0, 0, 7, 0, 0, 0::int]"
    "7 < length [0, 0, 0, 0, 7, 0, 0, 0::int]"
    by simp_all
  show ?thesis
    using c regulation_mode_hysteresis [OF c i(1)] regulation_mode_hysteresis [OF c i(2)]
      regulation_mode_hysteresis [OF c i(3)] regulation_mode_hysteresis [OF c i(4)]
      regulation_mode_hysteresis [OF c i(5)]
    by (simp add: t zero_run_def)
qed

text \<open>
  C3. The claim is that, for every configured threshold, a non-zero status
  code makes the mode \<open>auto_critical\<close> on that tick; the comment of
  \<^verbatim>\<open>choose_regulation_mode\<close> says the same (nominal "if status code is 0 and
  it has been for a while", "otherwise critical"). The threshold is
  \<^verbatim>\<open>unsigned\<close>, so 0 can be configured, and then the code does not: the count
  is reset to 0, the comparison \<^verbatim>\<open>count >= threshold\<close> holds, and the mode of
  the tick with the non-zero status code is \<open>auto_nominal\<close>.
\<close>

theorem choose_regulation_mode_threshold_0:
  assumes "status_code_threshold cc = 0" and "status_code \<noteq> 0"
  shows "choose_regulation_mode cc control_data status_code =
           (control_data\<lparr>regulation_mode := auto_nominal\<rparr>,
            cc\<lparr>consecutive_0_status_codes := 0\<rparr>)"
  using assms by (simp add: choose_regulation_mode_def Let_def)

text \<open>Threshold 0 and the status code 7 on the first tick of a new control
  center; the modes of the codes 0, 7, 0 are all \<open>auto_nominal\<close>.\<close>

theorem choose_regulation_mode_threshold_0_witness:
  "status_code_threshold (ControlCenter (\<lambda>c h. ()) 3 3 2 5 0) = 0 \<and>
   (7::int) \<noteq> 0 \<and>
   regulation_mode (fst (choose_regulation_mode (ControlCenter (\<lambda>c h. ()) 3 3 2 5 0)
     \<lparr>angle = 0, lateral_position = 0, speed_ref = 0, regulation_mode = auto_nominal\<rparr> 7))
     = auto_nominal \<and>
   regulation_modes (ControlCenter (\<lambda>c h. ()) 3 3 2 5 0) [0, 7, 0] =
     [auto_nominal, auto_nominal, auto_nominal]"
proof -
  have t: "status_code_threshold (ControlCenter (\<lambda>c h. ()) 3 3 2 5 0) = 0"
    by (simp add: ControlCenter_def)
  have s: "(7::int) \<noteq> 0" by simp
  have m: "regulation_modes (ControlCenter (\<lambda>c h. ()) 3 3 2 5 0) [0, 7, 0] =
     [auto_nominal, auto_nominal, auto_nominal]"
    by (simp add: ControlCenter_def choose_regulation_mode_def Let_def)
  show ?thesis
    using t s m choose_regulation_mode_threshold_0 [OF t s,
        of "\<lparr>angle = 0, lateral_position = 0, speed_ref = 0, regulation_mode = auto_nominal\<rparr>"]
    by simp
qed

subsection \<open>At the stop line\<close>

text \<open>
  C4. In state \<open>normal\<close> or \<open>intersection\<close>, with the path not blocked and the
  stop-line detector firing (\<open>d\<close> is the detector's state after the call):
  \<^item> with more than one instruction in the plan, the front instruction is
    finished (popped, with the front road segment if there is one, its id
    appended to the buffer) and the state is recomputed from the new front
    instruction: \<open>normal\<close> for \<open>forward\<close>, \<open>intersection\<close> for \<open>left\<close> and
    \<open>right\<close>, and for \<open>stop\<close> either \<open>stopping\<close> with stop reason \<open>stop_line\<close>
    (speed above 0) or \<open>stop_line\<close>; nothing else changes. This is what
    \<open>set_new_state\<close> makes of the control center after the pop;
  \<^item> with exactly one instruction, \<open>finish_when_stopped\<close> is set, the state
    is \<open>stopping\<close> and the stop reason \<open>stop_line\<close>, the plan is unchanged.
    From there, \<open>update_state\<close> calls with a non-zero speed change nothing,
    and the call with speed 0 finishes the instruction, clears the flag
    and makes the state \<open>stop_line\<close>.
\<close>

theorem stop_line_fires:
  assumes "state cc = normal \<or> state cc = intersection"
    and "\<not> path_blocked obstacle_distance"
    and "at_line (stop_line_detector cc) stop_distance = (True, d)"
    and "drive_instructions cc = intr # rest"
  shows "(rest \<noteq> [] \<longrightarrow>
           update_state path_blocked at_line cc obstacle_distance stop_distance speed =
             Inr (set_new_state
                   (cc\<lparr>stop_line_detector := d,
                       drive_instructions := rest,
                       road_segments := drop 1 (road_segments cc),
                       finished_id_buffer := finished_id_buffer cc @ [id' intr]\<rparr>) speed) \<and>
           update_state path_blocked at_line cc obstacle_distance stop_distance speed =
             Inr (cc\<lparr>stop_line_detector := d,
                     drive_instructions := rest,
                     road_segments := drop 1 (road_segments cc),
                     finished_id_buffer := finished_id_buffer cc @ [id' intr],
                     state :=
                       (case number (hd rest) of
                          forward \<Rightarrow> normal
                        | left \<Rightarrow> intersection
                        | right \<Rightarrow> intersection
                        | stop \<Rightarrow> (if speed > 0 then stopping else stop_line)),
                     stop_reason :=
                       (if number (hd rest) = stop \<and> speed > 0 then stop_line
                        else stop_reason cc)\<rparr>)) \<and>
         (rest = [] \<longrightarrow>
           update_state path_blocked at_line cc obstacle_distance stop_distance speed =
             Inr (cc\<lparr>stop_line_detector := d, finish_when_stopped := True,
                     state := stopping, stop_reason := stop_line\<rparr>) \<and>
           (list_all (\<lambda>(obstacle_distance1, stop_distance1, speed1). speed1 \<noteq> 0) later \<longrightarrow>
              update_states path_blocked at_line
                (cc\<lparr>stop_line_detector := d, finish_when_stopped := True,
                    state := stopping, stop_reason := stop_line\<rparr>) later =
              Inr (cc\<lparr>stop_line_detector := d, finish_when_stopped := True,
                      state := stopping, stop_reason := stop_line\<rparr>)) \<and>
           update_state path_blocked at_line
                (cc\<lparr>stop_line_detector := d, finish_when_stopped := True,
                    state := stopping, stop_reason := stop_line\<rparr>)
                obstacle_distance1 stop_distance1 0 =
              Inr (cc\<lparr>stop_line_detector := d, finish_when_stopped := False,
                      state := stop_line, stop_reason := stop_line,
                      drive_instructions := [],
                      road_segments := drop 1 (road_segments cc),
                      finished_id_buffer := finished_id_buffer cc @ [id' intr]\<rparr>))"
proof -
  let ?armed = "cc\<lparr>stop_line_detector := d, finish_when_stopped := True,
                    state := stopping, stop_reason := stop_line\<rparr>"
  let ?popped = "cc\<lparr>stop_line_detector := d,
                       drive_instructions := rest,
                       road_segments := drop 1 (road_segments cc),
                       finished_id_buffer := finished_id_buffer cc @ [id' intr]\<rparr>"
  have moving: "update_state path_blocked at_line ?armed od sd sp = Inr ?armed"
    if "sp \<noteq> 0" for od sd sp
    using that assms(4) by (simp add: update_state_def Let_def)
  have run: "update_states path_blocked at_line ?armed later = Inr ?armed"
    if "list_all (\<lambda>(obstacle_distance1, stop_distance1, speed1). speed1 \<noteq> 0) later"
    using that
  proof (induction later)
    case Nil
    then show ?case by simp
  next
    case (Cons a later)
    obtain od sd sp where a: "a = (od, sd, sp)" by (cases a) auto
    with Cons.prems have "sp \<noteq> 0" by simp
    from moving [OF this] Cons show ?case by (simp add: a)
  qed
  have many: "update_state path_blocked at_line cc obstacle_distance stop_distance speed =
             Inr (set_new_state ?popped speed)"
    if "rest \<noteq> []"
    using assms that by (auto simp: update_state_def finish_instruction_def Let_def drop_Suc)
  have recomputed: "set_new_state ?popped speed =
      ?popped\<lparr>state :=
                 (case number (hd rest) of
                    forward \<Rightarrow> normal
                  | left \<Rightarrow> intersection
                  | right \<Rightarrow> intersection
                  | stop \<Rightarrow> (if speed > 0 then stopping else stop_line)),
               stop_reason :=
                 (if number (hd rest) = stop \<and> speed > 0 then stop_line
                  else stop_reason cc)\<rparr>"
    if "rest \<noteq> []"
  proof -
    from that obtain nxt more where r: "rest = nxt # more" by (cases rest) auto
    show ?thesis
      by (cases "number nxt") (auto simp: set_new_state_def r Let_def)
  qed
  have one: "update_state path_blocked at_line cc obstacle_distance stop_distance speed = Inr ?armed"
    if "rest = []"
    using assms that by (auto simp: update_state_def Let_def)
  have stopped: "update_state path_blocked at_line ?armed obstacle_distance1 stop_distance1 0 =
              Inr (cc\<lparr>stop_line_detector := d, finish_when_stopped := False,
                      state := stop_line, stop_reason := stop_line,
                      drive_instructions := [],
                      road_segments := drop 1 (road_segments cc),
                      finished_id_buffer := finished_id_buffer cc @ [id' intr]\<rparr>)"
    if "rest = []"
    using assms(4) that by (simp add: update_state_def finish_instruction_def Let_def drop_Suc)
  from many recomputed have explicit:
    "update_state path_blocked at_line cc obstacle_distance stop_distance speed =
       Inr (?popped\<lparr>state :=
                 (case number (hd rest) of
                    forward \<Rightarrow> normal
                  | left \<Rightarrow> intersection
                  | right \<Rightarrow> intersection
                  | stop \<Rightarrow> (if speed > 0 then stopping else stop_line)),
               stop_reason :=
                 (if number (hd rest) = stop \<and> speed > 0 then stop_line
                  else stop_reason cc)\<rparr>)"
    if "rest \<noteq> []"
    using that by simp
  show ?thesis using many explicit one run stopped by blast
qed

text \<open>Plans of two instructions in state \<open>normal\<close>, and a plan of one in state
  \<open>intersection\<close>; the path is blocked under 30 and the detector fires under
  10. Obstacle distance 100 and stop distance 5. With \<open>left\<close> second, \<open>s1\<close> is
  finished and the state is \<open>intersection\<close>; with \<open>stop\<close> second and speed 20
  it is \<open>stopping\<close>, at speed 0 \<open>stop_line\<close>. The plan of one arms the flag,
  stays as it is through two calls at speeds 12 and 3, and finishes \<open>s2\<close> at
  speed 0.\<close>

theorem stop_line_fires_witness:
  "update_state (\<lambda>d. d < 30) (\<lambda>d x. (x < 10, d))
     ((ControlCenter (\<lambda>c h. ()) 3 3 2 5 3)
        \<lparr>state := normal,
         drive_instructions := [\<lparr>number = forward, id' = ''s1''\<rparr>, \<lparr>number = left, id' = ''s2''\<rparr>],
         road_segments := [''s1'', ''s2'']\<rparr>) 100 5 20 =
   Inr ((ControlCenter (\<lambda>c h. ()) 3 3 2 5 3)
        \<lparr>state := intersection,
         drive_instructions := [\<lparr>number = left, id' = ''s2''\<rparr>],
         road_segments := [''s2''],
         finished_id_buffer := [''s1'']\<rparr>) \<and>
   update_state (\<lambda>d. d < 30) (\<lambda>d x. (x < 10, d))
     ((ControlCenter (\<lambda>c h. ()) 3 3 2 5 3)
        \<lparr>state := normal, stop_reason := blocked,
         drive_instructions := [\<lparr>number = forward, id' = ''s1''\<rparr>, \<lparr>number = stop, id' = ''B''\<rparr>],
         road_segments := [''s1'', ''B'']\<rparr>) 100 5 20 =
   Inr ((ControlCenter (\<lambda>c h. ()) 3 3 2 5 3)
        \<lparr>state := stopping, stop_reason := stop_line,
         drive_instructions := [\<lparr>number = stop, id' = ''B''\<rparr>],
         road_segments := [''B''],
         finished_id_buffer := [''s1'']\<rparr>) \<and>
   update_state (\<lambda>d. d < 30) (\<lambda>d x. (x < 10, d))
     ((ControlCenter (\<lambda>c h. ()) 3 3 2 5 3)
        \<lparr>state := normal, stop_reason := blocked,
         drive_instructions := [\<lparr>number = forward, id' = ''s1''\<rparr>, \<lparr>number = stop, id' = ''B''\<rparr>],
         road_segments := [''s1'', ''B'']\<rparr>) 100 5 0 =
   Inr ((ControlCenter (\<lambda>c h. ()) 3 3 2 5 3)
        \<lparr>state := stop_line, stop_reason := blocked,
         drive_instructions := [\<lparr>number = stop, id' = ''B''\<rparr>],
         road_segments := [''B''],
         finished_id_buffer := [''s1'']\<rparr>) \<and>
   update_state (\<lambda>d. d < 30) (\<lambda>d x. (x < 10, d))
     ((ControlCenter (\<lambda>c h. ()) 3 3 2 5 3)
        \<lparr>state := intersection,
         drive_instructions := [\<lparr>number = left, id' = ''s2''\<rparr>],
         road_segments := [''s2'']\<rparr>) 100 5 20 =
   Inr ((ControlCenter (\<lambda>c h. ()) 3 3 2 5 3)
        \<lparr>state := stopping, stop_reason := stop_line, finish_when_stopped := True,
         drive_instructions := [\<lparr>number = left, id' = ''s2''\<rparr>],
         road_segments := [''s2'']\<rparr>) \<and>
   update_states (\<lambda>d. d < 30) (\<lambda>d x. (x < 10, d))
     ((ControlCenter (\<lambda>c h. ()) 3 3 2 5 3)
        \<lparr>state := stopping, stop_reason := stop_line, finish_when_stopped := True,
         drive_instructions := [\<lparr>number = left, id' = ''s2''\<rparr>],
         road_segments := [''s2'']\<rparr>) [(100, 5, 12), (100, 4, 3)] =
   Inr ((ControlCenter (\<lambda>c h. ()) 3 3 2 5 3)
        \<lparr>state := stopping, stop_reason := stop_line, finish_when_stopped := True,
         drive_instructions := [\<lparr>number = left, id' = ''s2''\<rparr>],
         road_segments := [''s2'']\<rparr>) \<and>
   update_state (\<lambda>d. d < 30) (\<lambda>d x. (x < 10, d))
     ((ControlCenter (\<lambda>c h. ()) 3 3 2 5 3)
        \<lparr>state := stopping, stop_reason := stop_line, finish_when_stopped := True,
         drive_instructions := [\<lparr>number = left, id' = ''s2''\<rparr>],
         road_segments := [''s2'']\<rparr>) 100 4 0 =
   Inr ((ControlCenter (\<lambda>c h. ()) 3 3 2 5 3)
        \<lparr>state := stop_line, stop_reason := stop_line, finish_when_stopped := False,
         drive_instructions := [],
         road_segments := [],
         finished_id_buffer := [''s2'']\<rparr>)"
proof -
  let ?two = "(ControlCenter (\<lambda>c h. ()) 3 3 2 5 3)
        \<lparr>state := normal,
         drive_instructions := [\<lparr>number = forward, id' = ''s1''\<rparr>, \<lparr>number = left, id' = ''s2''\<rparr>],
         road_segments := [''s1'', ''s2'']\<rparr>"
  let ?halt = "(ControlCenter (\<lambda>c h. ()) 3 3 2 5 3)
        \<lparr>state := normal, stop_reason := blocked,
         drive_instructions := [\<lparr>number = forward, id' = ''s1''\<rparr>, \<lparr>number = stop, id' = ''B''\<rparr>],
         road_segments := [''s1'', ''B'']\<rparr>"
  let ?one = "(ControlCenter (\<lambda>c h. ()) 3 3 2 5 3)
        \<lparr>state := intersection,
         drive_instructions := [\<lparr>number = left, id' = ''s2''\<rparr>],
         road_segments := [''s2'']\<rparr>"
  show ?thesis
    using stop_line_fires [where cc = ?two and path_blocked = "\<lambda>d. d < 30"
        and at_line = "\<lambda>d x. (x < 10, d)" and obstacle_distance = 100 and stop_distance = 5
        and d = "()" and intr = "\<lparr>number = forward, id' = ''s1''\<rparr>"
        and rest = "[\<lparr>number = left, id' = ''s2''\<rparr>]" and speed = 20]
      stop_line_fires [where cc = ?halt and path_blocked = "\<lambda>d. d < 30"
        and at_line = "\<lambda>d x. (x < 10, d)" and obstacle_distance = 100 and stop_distance = 5
        and d = "()" and intr = "\<lparr>number = forward, id' = ''s1''\<rparr>"
        and rest = "[\<lparr>number = stop, id' = ''B''\<rparr>]" and speed = 20]
      stop_line_fires [where cc = ?halt and path_blocked = "\<lambda>d. d < 30"
        and at_line = "\<lambda>d x. (x < 10, d)" and obstacle_distance = 100 and stop_distance = 5
        and d = "()" and intr = "\<lparr>number = forward, id' = ''s1''\<rparr>"
        and rest = "[\<lparr>number = stop, id' = ''B''\<rparr>]" and speed = 0]
      stop_line_fires [where cc = ?one and path_blocked = "\<lambda>d. d < 30"
        and at_line = "\<lambda>d x. (x < 10, d)" and obstacle_distance = 100 and stop_distance = 5
        and d = "()" and intr = "\<lparr>number = left, id' = ''s2''\<rparr>"
        and rest = "[]" and speed = 20 and later = "[(100, 5, 12), (100, 4, 3)]"
        and ?obstacle_distance1.0 = 100 and ?stop_distance1.0 = 4]
    by (simp add: ControlCenter_def set_new_state_def)
qed

subsection \<open>Splicing a mission\<close>

lemma save_path_covered:
  "length instructions \<le> length segments \<Longrightarrow>
   save_path cc instructions segments =
     Inr (cc\<lparr>drive_instructions :=
            drive_instructions cc @ leg_instructions (instructions, segments)\<rparr>)"
proof (induction cc instructions segments rule: save_path.induct)
  case (1 cc segments)
  then show ?case by (simp add: leg_instructions_def)
next
  case (2 cc instruction instructions)
  then show ?case by simp
next
  case (3 cc instruction instructions segment segments)
  then show ?case
    by (simp add: leg_instructions_def add_drive_instruction_id_def)
qed

lemma numbers_leg_instructions:
  "map number (leg_instructions (ins, ss)) = take (length ss) ins"
  by (induction ins ss rule: list_induct2') (simp_all add: leg_instructions_def)

lemma ids_leg_instructions:
  "map id' (leg_instructions (ins, ss)) = take (length ins) ss"
  by (induction ins ss rule: list_induct2') (simp_all add: leg_instructions_def)

lemma drive_missions_loop_covered:
  "legs_covered path_finder start_node targets \<Longrightarrow>
   \<exists>cc1. drive_missions_loop path_finder cc start_node targets = Inr cc1 \<and>
     map number (drive_instructions cc1) =
       map number (drive_instructions cc) @ mission_numbers path_finder start_node targets \<and>
     map id' (drive_instructions cc1) =
       map id' (drive_instructions cc) @ mission_ids path_finder start_node targets \<and>
     road_segments cc1 = road_segments cc @ mission_segments path_finder start_node targets \<and>
     finished_id_buffer cc1 = finished_id_buffer cc"
proof (induction targets arbitrary: cc start_node)
  case Nil
  then show ?case by simp
next
  case (Cons target_node targets)
  obtain ins ss where leg: "path_finder start_node target_node = (ins, ss)"
    by (cases "path_finder start_node target_node")
  from Cons.prems leg have len: "length ins \<le> length ss"
    and rest: "legs_covered path_finder target_node targets" by simp_all
  let ?cc2 = "(add_drive_instruction_id cc stop start_node)
      \<lparr>road_segments := road_segments cc @ [start_node]\<rparr>"
  let ?cc3 = "?cc2\<lparr>drive_instructions := drive_instructions ?cc2 @ leg_instructions (ins, ss),
      road_segments := road_segments ?cc2 @ ss\<rparr>"
  have step: "drive_missions_loop path_finder cc start_node (target_node # targets) =
      drive_missions_loop path_finder ?cc3 target_node targets"
    by (simp add: leg Let_def save_path_covered [OF len] add_drive_instruction_id_def)
  have n: "map number (leg_instructions (ins, ss)) = ins"
    using len by (simp add: numbers_leg_instructions)
  note i = ids_leg_instructions [of ins ss]
  from Cons.IH [OF rest, of ?cc3] 
  show ?case unfolding step
    by (auto simp: leg n i add_drive_instruction_id_def)
qed


text \<open>
  C2. For every waypoint list \<open>[A, B, C]\<close>, when the path finder gives for
  each of the two legs at least as many road segments as instructions (its
  contract: as many), \<open>set_drive_missions\<close> returns, and the control center
  differs from the one before only in the two queues. What they held
  before is gone, and nothing is appended to the buffer of finished ids.
  The instructions are: a \<open>stop\<close> with id \<open>A\<close>, the instructions of the leg
  from \<open>A\<close> to \<open>B\<close> in order, a \<open>stop\<close> with id \<open>B\<close>, the instructions of the
  leg from \<open>B\<close> to \<open>C\<close> in order. The road segments are \<open>A\<close>, the segments of
  the first leg, \<open>B\<close>, the segments of the second leg.
\<close>

theorem set_drive_missions_three_waypoints:
  assumes "length (fst (path_finder A B)) \<le> length (snd (path_finder A B))"
    and "length (fst (path_finder B C)) \<le> length (snd (path_finder B C))"
  shows "set_drive_missions path_finder cc [A, B, C] =
           Inr (cc\<lparr>drive_instructions :=
                     \<lparr>number = stop, id' = A\<rparr> # leg_instructions (path_finder A B) @
                     \<lparr>number = stop, id' = B\<rparr> # leg_instructions (path_finder B C),
                   road_segments :=
                     A # snd (path_finder A B) @ B # snd (path_finder B C)\<rparr>) \<and>
         map number (leg_instructions (path_finder A B)) = fst (path_finder A B) \<and>
         map number (leg_instructions (path_finder B C)) = fst (path_finder B C)"
proof -
  obtain i1 s1 where l1: "path_finder A B = (i1, s1)" by (cases "path_finder A B")
  obtain i2 s2 where l2: "path_finder B C = (i2, s2)" by (cases "path_finder B C")
  from assms have len: "length i1 \<le> length s1" "length i2 \<le> length s2"
    by (simp_all add: l1 l2)
  show ?thesis
    using len
    by (simp add: set_drive_missions_def l1 l2 Let_def save_path_covered
        add_drive_instruction_id_def numbers_leg_instructions)
qed

text \<open>A path finder that gives \<open>forward\<close>, \<open>left\<close> with the segments \<open>ab\<close>, \<open>ba\<close>
  for a leg from \<open>a\<close> to \<open>b\<close>, and a control center that holds an unfinished
  instruction, a road segment and a finished id \<open>done\<close>.\<close>

theorem set_drive_missions_three_waypoints_witness:
  "length (fst ((\<lambda>a b. ([forward, left], [a @ b, b @ a])) ''A'' ''B''))
     \<le> length (snd ((\<lambda>a b. ([forward, left], [a @ b, b @ a])) ''A'' ''B'')) \<and>
   set_drive_missions (\<lambda>a b. ([forward, left], [a @ b, b @ a]))
     ((ControlCenter (\<lambda>c h. ()) 3 3 2 5 3)
        \<lparr>drive_instructions := [\<lparr>number = right, id' = ''old''\<rparr>],
         road_segments := [''old''], finished_id_buffer := [''done'']\<rparr>)
     [''A'', ''B'', ''C''] =
   Inr ((ControlCenter (\<lambda>c h. ()) 3 3 2 5 3)
        \<lparr>drive_instructions :=
           [\<lparr>number = stop, id' = ''A''\<rparr>, \<lparr>number = forward, id' = ''AB''\<rparr>,
            \<lparr>number = left, id' = ''BA''\<rparr>, \<lparr>number = stop, id' = ''B''\<rparr>,
            \<lparr>number = forward, id' = ''BC''\<rparr>, \<lparr>number = left, id' = ''CB''\<rparr>],
         road_segments := [''A'', ''AB'', ''BA'', ''B'', ''BC'', ''CB''],
         finished_id_buffer := [''done'']\<rparr>)"
  using set_drive_missions_three_waypoints
    [of "\<lambda>a b. ([forward, left], [a @ b, b @ a])" "''A''" "''B''" "''C''"
      "(ControlCenter (\<lambda>c h. ()) 3 3 2 5 3)
        \<lparr>drive_instructions := [\<lparr>number = right, id' = ''old''\<rparr>],
         road_segments := [''old''], finished_id_buffer := [''done'']\<rparr>"]
  by (simp add: leg_instructions_def)

text \<open>Finishing every instruction of the plan appends their ids, in order, to
  the buffer of finished ids.\<close>

lemma finish_all:
  "\<exists>cc2. finish_instructions (length (drive_instructions cc)) cc = Inr cc2 \<and>
         finished_id_buffer cc2 = finished_id_buffer cc @ map id' (drive_instructions cc) \<and>
         drive_instructions cc2 = []"
proof (induction "drive_instructions cc" arbitrary: cc)
  case Nil
  then show ?case by (simp flip: Nil)
next
  case (Cons intr rest)
  let ?cc1 = "cc\<lparr>drive_instructions := rest,
                  road_segments :=
                    (if road_segments cc \<noteq> [] then tl (road_segments cc)
                     else road_segments cc),
                  finished_id_buffer := finished_id_buffer cc @ [id' intr]\<rparr>"
  have f: "finish_instruction cc = Inr ?cc1"
    by (simp add: finish_instruction_def flip: Cons(2))
  have r: "rest = drive_instructions ?cc1" by simp
  from Cons(1) [OF r] show ?case
    by (simp add: f flip: Cons(2))
qed

text \<open>Polling as many times as the buffer holds ids returns them oldest
  first and leaves the buffer empty; a poll of the empty buffer returns the
  empty string.\<close>

lemma poll_finished_all:
  "poll_finished (length (finished_id_buffer cc)) cc =
     (finished_id_buffer cc, cc\<lparr>finished_id_buffer := []\<rparr>)"
proof (induction "finished_id_buffer cc" arbitrary: cc)
  case Nil
  then have "finished_id_buffer cc = []" by simp
  then show ?case by simp
next
  case (Cons ident idents)
  let ?cc1 = "cc\<lparr>finished_id_buffer := idents\<rparr>"
  have g: "get_finished_instruction_id cc = (ident, ?cc1)"
    by (simp add: get_finished_instruction_id_def flip: Cons(2))
  have r: "idents = finished_id_buffer ?cc1" by simp
  have ih: "poll_finished (length idents) ?cc1 = (idents, cc\<lparr>finished_id_buffer := []\<rparr>)"
    using Cons(1) [OF r] by simp
  have "poll_finished (Suc (length idents)) cc = (ident # idents, cc\<lparr>finished_id_buffer := []\<rparr>)"
    by (simp add: g ih)
  moreover have "length (finished_id_buffer cc) = Suc (length idents)"
    by (simp flip: Cons(2))
  ultimately show ?case by (simp flip: Cons(2))
qed

lemma poll_empty:
  "finished_id_buffer cc = [] \<Longrightarrow> get_finished_instruction_id cc = ('''', cc)"
  by (simp add: get_finished_instruction_id_def)

text \<open>
  C10. For every mission (a start and any list of targets) whose legs the
  path finder covers, \<open>set_drive_missions\<close> returns, and the ids of the
  instructions in the plan are, leg by leg: the name of the leg's start for
  the \<open>stop\<close> that opens the leg, then, for the path finder's instructions,
  the road segments it gave for the same steps (\<open>mission_ids\<close>, beside
  \<open>mission_numbers\<close>). Finishing the instructions puts these ids, in this
  order, into the buffer of finished ids, behind what it held, and polling
  with \<open>get_finished_instruction_id\<close> then returns what the buffer held
  followed by exactly these ids: waypoint names for the \<open>stop\<close> instructions,
  road segments for the others.
\<close>

theorem mission_ids_are_segment_names:
  assumes "legs_covered path_finder start_node targets"
  shows "\<exists>cc1 cc2.
     set_drive_missions path_finder cc (start_node # targets) = Inr cc1 \<and>
     map number (drive_instructions cc1) = mission_numbers path_finder start_node targets \<and>
     map id' (drive_instructions cc1) = mission_ids path_finder start_node targets \<and>
     finish_instructions (length (drive_instructions cc1)) cc1 = Inr cc2 \<and>
     finished_id_buffer cc2 =
       finished_id_buffer cc @ mission_ids path_finder start_node targets \<and>
     poll_finished (length (finished_id_buffer cc2)) cc2 =
       (finished_id_buffer cc @ mission_ids path_finder start_node targets,
        cc2\<lparr>finished_id_buffer := []\<rparr>) \<and>
     get_finished_instruction_id (cc2\<lparr>finished_id_buffer := []\<rparr>) =
       ('''', cc2\<lparr>finished_id_buffer := []\<rparr>)"
proof -
  from drive_missions_loop_covered [OF assms, of "cc\<lparr>drive_instructions := [], road_segments := []\<rparr>"]
  obtain cc1 where s: "set_drive_missions path_finder cc (start_node # targets) = Inr cc1"
    and n: "map number (drive_instructions cc1) = mission_numbers path_finder start_node targets"
    and i: "map id' (drive_instructions cc1) = mission_ids path_finder start_node targets"
    and b: "finished_id_buffer cc1 = finished_id_buffer cc"
    by (auto simp add: set_drive_missions_def)
  from finish_all [of cc1] obtain cc2
    where f: "finish_instructions (length (drive_instructions cc1)) cc1 = Inr cc2"
      and fb: "finished_id_buffer cc2 =
        finished_id_buffer cc @ mission_ids path_finder start_node targets"
    by (auto simp: i b)
  have p: "poll_finished (length (finished_id_buffer cc2)) cc2 =
       (finished_id_buffer cc @ mission_ids path_finder start_node targets,
        cc2\<lparr>finished_id_buffer := []\<rparr>)"
    using poll_finished_all [of cc2] by (simp add: fb)
  have e: "get_finished_instruction_id (cc2\<lparr>finished_id_buffer := []\<rparr>) =
       ('''', cc2\<lparr>finished_id_buffer := []\<rparr>)"
    by (rule poll_empty) simp
  from s n i f fb p e show ?thesis by blast
qed

text \<open>The mission \<open>A\<close>, \<open>B\<close>, \<open>C\<close> with the path finder of the example above,
  set while the id \<open>done\<close> waits in the buffer: the ids of the two \<open>stop\<close>
  instructions are the waypoints \<open>A\<close> and \<open>B\<close>, the ids of the others are the
  road segments, and seven polls return \<open>done\<close> and then the six ids.\<close>

theorem mission_ids_are_segment_names_witness:
  "legs_covered (\<lambda>a b. ([forward, left], [a @ b, b @ a])) ''A'' [''B'', ''C''] \<and>
   (\<exists>cc1 cc2.
     set_drive_missions (\<lambda>a b. ([forward, left], [a @ b, b @ a]))
       ((ControlCenter (\<lambda>c h. ()) 3 3 2 5 3)\<lparr>finished_id_buffer := [''done'']\<rparr>)
       [''A'', ''B'', ''C''] = Inr cc1 \<and>
     map number (drive_instructions cc1) = [stop, forward, left, stop, forward, left] \<and>
     map id' (drive_instructions cc1) = [''A'', ''AB'', ''BA'', ''B'', ''BC'', ''CB''] \<and>
     finish_instructions (length (drive_instructions cc1)) cc1 = Inr cc2 \<and>
     finished_id_buffer cc2 = [''done'', ''A'', ''AB'', ''BA'', ''B'', ''BC'', ''CB''] \<and>
     poll_finished 7 cc2 =
       ([''done'', ''A'', ''AB'', ''BA'', ''B'', ''BC'', ''CB''],
        cc2\<lparr>finished_id_buffer := []\<rparr>) \<and>
     fst (get_finished_instruction_id (cc2\<lparr>finished_id_buffer := []\<rparr>)) = '''')"
proof -
  have l: "legs_covered (\<lambda>a b. ([forward, left], [a @ b, b @ a])) ''A'' [''B'', ''C'']"
    by simp
  from mission_ids_are_segment_names [OF l,
      of "(ControlCenter (\<lambda>c h. ()) 3 3 2 5 3)\<lparr>finished_id_buffer := [''done'']\<rparr>"]
  obtain cc1 cc2 where
    s: "set_drive_missions (\<lambda>a b. ([forward, left], [a @ b, b @ a]))
       ((ControlCenter (\<lambda>c h. ()) 3 3 2 5 3)\<lparr>finished_id_buffer := [''done'']\<rparr>)
       [''A'', ''B'', ''C''] = Inr cc1"
    and n: "map number (drive_instructions cc1) = [stop, forward, left, stop, forward, left]"
    and i: "map id' (drive_instructions cc1) = [''A'', ''AB'', ''BA'', ''B'', ''BC'', ''CB'']"
    and f: "finish_instructions (length (drive_instructions cc1)) cc1 = Inr cc2"
    and b: "finished_id_buffer cc2 = [''done'', ''A'', ''AB'', ''BA'', ''B'', ''BC'', ''CB'']"
    and p: "poll_finished (length (finished_id_buffer cc2)) cc2 =
       ([''done'', ''A'', ''AB'', ''BA'', ''B'', ''BC'', ''CB''],
        cc2\<lparr>finished_id_buffer := []\<rparr>)"
    and e: "get_finished_instruction_id (cc2\<lparr>finished_id_buffer := []\<rparr>) =
       ('''', cc2\<lparr>finished_id_buffer := []\<rparr>)"
    by (auto simp del: poll_finished.simps)
  have len: "length (finished_id_buffer cc2) = 7" by (simp add: b)
  have p7: "poll_finished 7 cc2 =
       ([''done'', ''A'', ''AB'', ''BA'', ''B'', ''BC'', ''CB''],
        cc2\<lparr>finished_id_buffer := []\<rparr>)"
    using p unfolding len .
  have e1: "fst (get_finished_instruction_id (cc2\<lparr>finished_id_buffer := []\<rparr>)) = ''''"
    by (simp only: e fst_conv)
  have
    "\<exists>cc1 cc2.
     set_drive_missions (\<lambda>a b. ([forward, left], [a @ b, b @ a]))
       ((ControlCenter (\<lambda>c h. ()) 3 3 2 5 3)\<lparr>finished_id_buffer := [''done'']\<rparr>)
       [''A'', ''B'', ''C''] = Inr cc1 \<and>
     map number (drive_instructions cc1) = [stop, forward, left, stop, forward, left] \<and>
     map id' (drive_instructions cc1) = [''A'', ''AB'', ''BA'', ''B'', ''BC'', ''CB''] \<and>
     finish_instructions (length (drive_instructions cc1)) cc1 = Inr cc2 \<and>
     finished_id_buffer cc2 = [''done'', ''A'', ''AB'', ''BA'', ''B'', ''BC'', ''CB''] \<and>
     poll_finished 7 cc2 =
       ([''done'', ''A'', ''AB'', ''BA'', ''B'', ''BC'', ''CB''],
        cc2\<lparr>finished_id_buffer := []\<rparr>) \<and>
     fst (get_finished_instruction_id (cc2\<lparr>finished_id_buffer := []\<rparr>)) = ''''"
    by (rule exI [of _ cc1], rule exI [of _ cc2]) (intro conjI s n i f b p7 e1)
  with l show ?thesis by (rule conjI)
qed

subsection \<open>Alignment of the two queues\<close>

lemma set_new_state_queues:
  "drive_instructions (set_new_state cc speed) = drive_instructions cc"
  "road_segments (set_new_state cc speed) = road_segments cc"
  by (simp_all add: set_new_state_def Let_def split: list.splits InstructionNumber.splits)

lemma plan_aligned_set_new_state: "plan_aligned (set_new_state cc speed) = plan_aligned cc"
  by (simp add: plan_aligned_def set_new_state_queues)

lemma plan_aligned_finish_instruction:
  "plan_aligned cc \<Longrightarrow> finish_instruction cc = Inr cc1 \<Longrightarrow> plan_aligned cc1"
  by (cases "road_segments cc")
    (auto simp: plan_aligned_def finish_instruction_def split: list.splits)

lemma plan_aligned_update_state:
  assumes "plan_aligned cc"
    and "update_state path_blocked at_line cc obstacle_distance stop_distance speed = Inr cc1"
  shows "plan_aligned cc1"
proof -
  have upd: "plan_aligned (c\<lparr>stop_line_detector := d\<rparr>) = plan_aligned c"
    "plan_aligned (c\<lparr>state := s\<rparr>) = plan_aligned c"
    "plan_aligned (c\<lparr>stop_reason := s\<rparr>) = plan_aligned c"
    "plan_aligned (c\<lparr>finish_when_stopped := b\<rparr>) = plan_aligned c"
    for c :: "'a ControlCenter" and d s b
    by (simp_all add: plan_aligned_def)
  from assms show ?thesis
    by (auto simp: update_state_def Let_def upd plan_aligned_set_new_state
        split: list.splits ControlState.splits if_splits sum.splits prod.splits
        dest: plan_aligned_finish_instruction [rotated])
qed

lemma plan_aligned_tick:
  assumes "plan_aligned cc"
    and "tick path_blocked at_line is_expected DEFAULT_SPEED INTERSECTION_SPEED cc
           obstacle_distance stop_distance speed angle_left angle_right
           lateral_left lateral_right image_processing_status_code = Inr (control_data, cc1)"
  shows "plan_aligned cc1"
proof -
  have upd: "plan_aligned (c\<lparr>obstacle_distance_filter := f1, stop_distance_filter := f2\<rparr>) =
      plan_aligned c"
    for c :: "'a ControlCenter" and f1 f2
    by (simp add: plan_aligned_def)
  have crm: "plan_aligned (snd (choose_regulation_mode c cd code)) = plan_aligned c"
    for c :: "'a ControlCenter" and cd code
    by (simp add: choose_regulation_mode_def plan_aligned_def Let_def)
  have ca: "plan_aligned c1" if "calculate_angle is_expected c l r = Inr (a, c1)" "plan_aligned c"
    for c c1 :: "'a ControlCenter" and l r a
    using that
    by (auto simp: calculate_angle_def plan_aligned_def Let_def
        split: list.splits sum.splits)
  from assms(2) obtain f1 f2 od sd c1 cd c2 a where
    u: "update_state path_blocked at_line
          (cc\<lparr>obstacle_distance_filter := f1, stop_distance_filter := f2\<rparr>) od sd speed = Inr c1"
    and c: "choose_regulation_mode c1
        \<lparr>angle = 0, lateral_position = 0, speed_ref = 0, regulation_mode = auto_nominal\<rparr>
        image_processing_status_code = (cd, c2)"
    and a: "calculate_angle is_expected c2 angle_left angle_right = Inr (a, cc1)"
    by (auto simp: tick_def Let_def split: sum.splits prod.splits)
  from plan_aligned_update_state [OF _ u] assms(1) have "plan_aligned c1" by (simp add: upd)
  with crm [of c1] c have "plan_aligned c2" by (metis snd_conv)
  with a show ?thesis by (rule ca)
qed

lemma length_mission_segments:
  "\<forall>a b. length (fst (path_finder a b)) = length (snd (path_finder a b)) \<Longrightarrow>
   length (mission_segments path_finder start_node targets) =
     length (mission_numbers path_finder start_node targets)"
  by (induction targets arbitrary: start_node) simp_all

lemma contract_legs_covered:
  "\<forall>a b. length (fst (path_finder a b)) = length (snd (path_finder a b)) \<Longrightarrow>
   legs_covered path_finder start_node targets"
  by (induction targets arbitrary: start_node) simp_all

lemma plan_aligned_set_drive_missions:
  assumes "\<forall>a b. length (fst (path_finder a b)) = length (snd (path_finder a b))"
    and "set_drive_missions path_finder cc target_list = Inr cc1"
  shows "plan_aligned cc1"
proof (cases target_list)
  case Nil
  with assms(2) show ?thesis by (simp add: set_drive_missions_def)
next
  case (Cons start_node targets)
  have "legs_covered path_finder start_node targets"
    by (rule contract_legs_covered [OF assms(1)])
  from drive_missions_loop_covered [OF this,
      of "cc\<lparr>drive_instructions := [], road_segments := []\<rparr>"]
    assms(2)
  have "map number (drive_instructions cc1) = mission_numbers path_finder start_node targets"
    and "road_segments cc1 = mission_segments path_finder start_node targets"
    by (auto simp: set_drive_missions_def Cons)
  then have "length (drive_instructions cc1) = length (mission_numbers path_finder start_node targets)"
    and "length (road_segments cc1) = length (mission_segments path_finder start_node targets)"
    by (simp_all flip: length_map [of number "drive_instructions cc1"])
  then show ?thesis
    by (simp add: plan_aligned_def length_mission_segments [OF assms(1)])
qed

lemma plan_aligned_perform:
  assumes "\<forall>a b. length (fst (ext_path_finder ext a b)) = length (snd (ext_path_finder ext a b))"
    and "plan_aligned cc"
    and "perform ext cc operation = Inr cc1"
  shows "plan_aligned cc1"
proof (cases operation)
  case (Add_drive_instruction drive_instruction)
  with assms show ?thesis by (auto simp: plan_aligned_def add_drive_instruction_def)
next
  case (Add_drive_instruction_id instruction ident)
  with assms show ?thesis by (auto simp: plan_aligned_def add_drive_instruction_id_def)
next
  case Finish_instruction
  with assms show ?thesis by (auto dest: plan_aligned_finish_instruction)
next
  case (Set_drive_missions target_list)
  with assms show ?thesis by (auto dest: plan_aligned_set_drive_missions)
next
  case (Update_state obstacle_distance stop_distance speed)
  with assms show ?thesis by (auto dest: plan_aligned_update_state)
next
  case (Tick x1 x2 x3 x4 x5 x6 x7 x8)
  with assms show ?thesis
    by (auto split: sum.splits prod.splits dest: plan_aligned_tick)
next
  case Get_finished_instruction_id
  with assms show ?thesis
    by (auto simp: plan_aligned_def get_finished_instruction_id_def split: list.splits)
qed

text \<open>
  C6. When the path finder gives as many road segments as instructions for
  every leg, every operation that returns preserves
  \<open>length road_segments \<le> length drive_instructions\<close>: adding an instruction,
  \<open>finish_instruction\<close>, \<open>set_drive_missions\<close> (after which it holds whatever
  held before), \<open>update_state\<close>, a tick and polling a finished id. So it
  holds after every sequence of these operations that starts where it
  holds, such as any sequence of \<open>finish_instruction\<close> calls.
\<close>

theorem plan_alignment_preserved:
  assumes "\<forall>a b. length (fst (ext_path_finder ext a b)) = length (snd (ext_path_finder ext a b))"
    and "plan_aligned cc"
    and "perform_all ext cc operations = Inr cc1"
  shows "plan_aligned cc1"
  using assms(2,3)
proof (induction operations arbitrary: cc)
  case Nil
  then show ?case by simp
next
  case (Cons operation operations)
  then show ?case
    by (auto split: sum.splits dest: plan_aligned_perform [OF assms(1)])
qed

text \<open>A new control center, then a mission from \<open>A\<close> to \<open>B\<close>, an
  \<open>update_state\<close> call that finishes the \<open>stop\<close>, the next instruction
  finished, one added by hand and a tick.\<close>

theorem plan_alignment_preserved_witness:
  "(\<forall>a b. length (fst ((\<lambda>a b. ([forward, left], [a @ b, b @ a])) a b)) =
          length (snd ((\<lambda>a b. ([forward, left], [a @ b, b @ a])) a b))) \<and>
   plan_aligned (ControlCenter (\<lambda>c h. ()) 3 3 2 5 3) \<and>
   perform_all
     \<lparr>ext_path_finder = (\<lambda>a b. ([forward, left], [a @ b, b @ a])),
      ext_path_blocked = (\<lambda>d. d < 30), ext_at_line = (\<lambda>d x. (x < 10, d)),
      ext_is_expected = (\<lambda>cc a. \<bar>a - last_angle cc\<bar> \<le> 90),
      ext_DEFAULT_SPEED = 100, ext_INTERSECTION_SPEED = 50\<rparr>
     (ControlCenter (\<lambda>c h. ()) 3 3 2 5 3)
     [Set_drive_missions [''A'', ''B''], Update_state 100 100 0, Finish_instruction,
      Add_drive_instruction_id right ''x'', Tick 100 100 20 4 6 0 0 0] =
   Inr ((ControlCenter (\<lambda>c h. ()) 3 3 2 5 3)
        \<lparr>stop_distance_filter := [0, 0, 100],
         consecutive_0_status_codes := 1,
         state := normal,
         drive_instructions := [\<lparr>number = left, id' = ''BA''\<rparr>, \<lparr>number = right, id' = ''x''\<rparr>],
         road_segments := [''BA''],
         finished_id_buffer := [''A'', ''AB''],
         last_angle := 4\<rparr>) \<and>
   plan_aligned ((ControlCenter (\<lambda>c h. ()) 3 3 2 5 3)
        \<lparr>stop_distance_filter := [0, 0, 100],
         consecutive_0_status_codes := 1,
         state := normal,
         drive_instructions := [\<lparr>number = left, id' = ''BA''\<rparr>, \<lparr>number = right, id' = ''x''\<rparr>],
         road_segments := [''BA''],
         finished_id_buffer := [''A'', ''AB''],
         last_angle := 4\<rparr>)"
proof -
  let ?ext = "\<lparr>ext_path_finder = (\<lambda>a b. ([forward, left], [a @ b, b @ a])),
      ext_path_blocked = (\<lambda>d. d < 30), ext_at_line = (\<lambda>d x. (x < 10, d)),
      ext_is_expected = (\<lambda>cc a. \<bar>a - last_angle cc\<bar> \<le> 90),
      ext_DEFAULT_SPEED = 100, ext_INTERSECTION_SPEED = 50\<rparr> :: unit externals"
  have c: "\<forall>a b. length (fst (ext_path_finder ?ext a b)) = length (snd (ext_path_finder ?ext a b))"
    by simp
  have a: "plan_aligned (ControlCenter (\<lambda>c h. ()) 3 3 2 5 3)"
    by (simp add: plan_aligned_def ControlCenter_def)
  have r: "perform_all ?ext (ControlCenter (\<lambda>c h. ()) 3 3 2 5 3)
     [Set_drive_missions [''A'', ''B''], Update_state 100 100 0, Finish_instruction,
      Add_drive_instruction_id right ''x'', Tick 100 100 20 4 6 0 0 0] =
   Inr ((ControlCenter (\<lambda>c h. ()) 3 3 2 5 3)
        \<lparr>stop_distance_filter := [0, 0, 100],
         consecutive_0_status_codes := 1,
         state := normal,
         drive_instructions := [\<lparr>number = left, id' = ''BA''\<rparr>, \<lparr>number = right, id' = ''x''\<rparr>],
         road_segments := [''BA''],
         finished_id_buffer := [''A'', ''AB''],
         last_angle := 4\<rparr>)"
    by (simp add: ControlCenter_def DistanceFilter_def set_drive_missions_def
        add_drive_instruction_id_def finish_instruction_def update_state_def
        set_new_state_def tick_def distance_filter_def cpp_div_def
        choose_regulation_mode_def calculate_angle_def calculate_lateral_position_def
        calculate_speed_def int_add_def INT_MIN_def INT_MAX_def Let_def numeral_3_eq_3)
  show ?thesis
    using c a r plan_alignment_preserved [OF c a r] by simp
qed

end
